theory Spec2Isabelle
  imports Complex_Main "HOL-Library.Sublist" "HOL-Library.Word"
begin

section \<open>Python values and exceptions\<close>

text \<open>
  Every exception that \<^verbatim>\<open>src/deforum/generate.py\<close> can raise is a value of
  \<open>error\<close>. The failures of the external collaborators (the expression evaluator, the
  image fetcher and decoder, the processing engine) are \<open>External\<close> errors, and a
  failure to create the output directory is an \<open>OSError\<close>: they are propagated by the
  module, never caught.
\<close>

datatype error =
    AssertionError string
  | ValueError string
  | NameError string
  | UnboundLocalError string
  | AttributeError string
  | IndexError
  | TypeError string
  | Exception string
  | OSError string
  | External string

text \<open>
  A collaborator returns its value or fails with a message; the failure reaches the
  module as an \<open>External\<close> exception.
\<close>

definition external :: "string + 'a \<Rightarrow> error + 'a" where
  "external r = (case r of Inl msg \<Rightarrow> Inl (External msg) | Inr v \<Rightarrow> Inr v)"

text \<open>A failed \<^verbatim>\<open>assert\<close> is the module's precondition error.\<close>

fun assertion_error :: "error \<Rightarrow> bool" where
  "assertion_error (AssertionError _) = True"
| "assertion_error _ = False"

fun is_assertion :: "error + 'a \<Rightarrow> bool" where
  "is_assertion (Inl e) = assertion_error e"
| "is_assertion (Inr _) = False"

section \<open>Prompt handling\<close>

subsection \<open>\<^verbatim>\<open>str.split(sep)\<close>\<close>

text \<open>
  Python's \<^verbatim>\<open>s.split(sep)\<close> for a non-empty separator: the string is scanned from the
  left, every non-overlapping occurrence of \<open>sep\<close> ends a piece, and the pieces are
  returned in order (so a string without the separator gives the one-element list).
\<close>

function str_split :: "string \<Rightarrow> string \<Rightarrow> string list" where
  "str_split sep [] = [[]]"
| "str_split sep (c # cs) =
     (if sep \<noteq> [] \<and> prefix sep (c # cs)
      then [] # str_split sep (drop (length sep) (c # cs))
      else (case str_split sep cs of
              [] \<Rightarrow> [[c]]
            | piece # pieces \<Rightarrow> (c # piece) # pieces))"
  by pat_completeness auto
termination
  by (relation "measure (\<lambda>(sep, s). length s)") auto

text \<open>
  Lines 124 to 129 of \<^verbatim>\<open>generate\<close>:
  \<^verbatim>\<open>
    prompt_split = parsed_prompt.split("--neg")
    if len(prompt_split) > 1:
        p.prompt, p.negative_prompt = parsed_prompt.split("--neg")
    else:
        p.prompt = prompt_split[0]
        p.negative_prompt = ""
  \<close>
  The tuple assignment unpacks the list into exactly two names; Python raises
  \<^verbatim>\<open>ValueError\<close> when the list has any other length.
\<close>

definition neg_split :: "string \<Rightarrow> error + (string \<times> string)" where
  "neg_split parsed_prompt =
     (let prompt_split = str_split ''--neg'' parsed_prompt in
      if length prompt_split > 1
      then (case str_split ''--neg'' parsed_prompt of
              [pos, neg] \<Rightarrow> Inr (pos, neg)
            | _ \<Rightarrow> Inl (ValueError ''too many values to unpack (expected 2)''))
      else Inr (hd prompt_split, ''''))"

subsection \<open>Expression substitution\<close>

text \<open>
  Lines 97 to 103 compile the verbose pattern \<^verbatim>\<open>(?P<weight>(`[\S\s]*?`))\<close> and call
  \<^verbatim>\<open>re.sub(math_parser, lambda m: str(parse_weight(m, frame)), args.prompt)\<close>.
  The pattern matches a backtick, the shortest run of arbitrary characters, and the next
  backtick. \<^verbatim>\<open>re.sub\<close> scans from the left: text before a match is copied, the match
  is replaced by the result of the callback (used literally), and scanning resumes after
  the match. A backtick with no later backtick starts no match, and the rest of the
  string is copied. The callback \<open>repl\<close> receives the matched text, delimiters
  included; an exception it raises leaves \<^verbatim>\<open>re.sub\<close> at once.
\<close>

abbreviation backtick :: char where
  "backtick \<equiv> CHR 0x60"

function re_sub :: "(string \<Rightarrow> error + string) \<Rightarrow> string \<Rightarrow> error + string" where
  "re_sub repl [] = Inr []"
| "re_sub repl (c # cs) =
     (if c = backtick
      then (case dropWhile (\<lambda>x. x \<noteq> backtick) cs of
              [] \<Rightarrow> Inr (c # cs)
            | _ # rest \<Rightarrow>
                (case repl (c # takeWhile (\<lambda>x. x \<noteq> backtick) cs @ [backtick]) of
                   Inl e \<Rightarrow> Inl e
                 | Inr r \<Rightarrow>
                     (case re_sub repl rest of
                        Inl e \<Rightarrow> Inl e
                      | Inr out \<Rightarrow> Inr (r @ out))))
      else (case re_sub repl cs of
              Inl e \<Rightarrow> Inl e
            | Inr out \<Rightarrow> Inr (c # out)))"
  by pat_completeness auto
termination
proof (relation "measure (\<lambda>(repl, s). length s)", goal_cases)
  case 1
  then show ?case by simp
next
  case (2 repl c cs x rest)
  have "length (dropWhile (\<lambda>x. x \<noteq> backtick) cs) \<le> length cs"
    by (rule length_dropWhile_le)
  with 2 show ?case by simp
next
  case 3
  then show ?case by simp
qed

text \<open>
  The matches of the pattern, in the order \<^verbatim>\<open>re.sub\<close> visits them (what
  \<^verbatim>\<open>re.findall\<close> returns for the same pattern).
\<close>

function re_matches :: "string \<Rightarrow> string list" where
  "re_matches [] = []"
| "re_matches (c # cs) =
     (if c = backtick
      then (case dropWhile (\<lambda>x. x \<noteq> backtick) cs of
              [] \<Rightarrow> []
            | _ # rest \<Rightarrow>
                (c # takeWhile (\<lambda>x. x \<noteq> backtick) cs @ [backtick]) # re_matches rest)
      else re_matches cs)"
  by pat_completeness auto
termination
proof (relation "measure length", goal_cases)
  case 1
  then show ?case by simp
next
  case (2 c cs x rest)
  have "length (dropWhile (\<lambda>x. x \<noteq> backtick) cs) \<le> length cs"
    by (rule length_dropWhile_le)
  with 2 show ?case by simp
next
  case 3
  then show ?case by simp
qed

text \<open>
  The spec's reading of a prompt (section 4.1): a sequence of plain text and delimited
  expressions. \<open>raw\<close> writes the prompt out; \<open>substituted\<close> is the prompt with every
  expression replaced by what the evaluator returned for it.
\<close>

datatype segment = Plain string | Expr string

fun raw_segment :: "segment \<Rightarrow> string" where
  "raw_segment (Plain t) = t"
| "raw_segment (Expr body) = backtick # body @ [backtick]"

definition raw :: "segment list \<Rightarrow> string" where
  "raw segs = concat (map raw_segment segs)"

fun no_backtick :: "segment \<Rightarrow> bool" where
  "no_backtick (Plain t) = (backtick \<notin> set t)"
| "no_backtick (Expr body) = (backtick \<notin> set body)"

fun substituted_segment :: "(string \<Rightarrow> string) \<Rightarrow> segment \<Rightarrow> string" where
  "substituted_segment ev (Plain t) = t"
| "substituted_segment ev (Expr body) = ev (backtick # body @ [backtick])"

definition substituted :: "(string \<Rightarrow> string) \<Rightarrow> segment list \<Rightarrow> string" where
  "substituted ev segs = concat (map (substituted_segment ev) segs)"

fun expressions :: "segment list \<Rightarrow> string list" where
  "expressions [] = []"
| "expressions (Plain t # segs) = expressions segs"
| "expressions (Expr body # segs) = (backtick # body @ [backtick]) # expressions segs"

section \<open>Images and arrays\<close>

text \<open>
  A PIL image is its mode, its size and its pixel data (row-major, one list of band
  values per pixel, each an unsigned 8-bit integer). A numpy array or torch tensor is its
  shape and its elements in row-major order.
\<close>

datatype mode = L | LA | RGB | RGBA

fun channels :: "mode \<Rightarrow> nat" where
  "channels L = 1"
| "channels LA = 2"
| "channels RGB = 3"
| "channels RGBA = 4"

type_synonym pixel = "8 word list"

record image =
  im_mode :: mode
  im_width :: nat
  im_height :: nat
  im_pixels :: "pixel list"

record ndarray =
  shape :: "nat list"
  elems :: "real list"

text \<open>What \<^verbatim>\<open>load_mask_latent\<close> can be handed as \<^verbatim>\<open>mask_input\<close>.\<close>

datatype pyobj = Str string | Img image | NoneObj

section \<open>The host's objects\<close>

text \<open>
  \<open>request\<close> is the host's processing object \<^verbatim>\<open>root.p\<close>, with the fields that
  \<^verbatim>\<open>generate\<close> writes; \<open>processed\<close> is what \<^verbatim>\<open>process_images\<close> returns.
\<close>

record request =
  p_batch_size :: int
  p_width :: nat
  p_height :: nat
  p_steps :: int
  p_seed :: int
  p_do_not_save_samples :: bool
  p_do_not_save_grid :: bool
  p_sampler_index :: int
  p_mask_blur :: real
  p_extra_generation_params :: "string \<rightharpoonup> real"
  p_n_iter :: int
  p_cfg_scale :: real
  p_outpath_samples :: string
  p_outpath_grids :: string
  p_prompt :: string
  p_negative_prompt :: string
  p_denoising_strength :: real
  p_init_images :: "image option list"
  p_mask :: "image option"

record processed =
  pr_images :: "image list"
  pr_seed :: int
  pr_info :: string

section \<open>External collaborators and effects\<close>

text \<open>
  The functions the module imports from other packages, taken as parameters:
  \<^item> \<open>parse_weight m frame\<close> is \<^verbatim>\<open>str(parse_weight(m, frame))\<close> on the matched text;
  \<^item> \<open>file_image\<close> and \<open>http_image\<close> are \<^verbatim>\<open>Image.open(path)\<close> and
    \<^verbatim>\<open>Image.open(requests.get(path, stream=True).raw)\<close>;
  \<^item> \<open>convert_pixels\<close> and \<open>resample\<close> are the pixel arithmetic of
    \<^verbatim>\<open>Image.convert\<close> and of \<^verbatim>\<open>Image.resize\<close> with the Lanczos filter;
  \<^item> \<open>adjust_brightness\<close>, \<open>adjust_contrast\<close> are torchvision's functions and
    \<open>invert\<close> is \<^verbatim>\<open>ImageOps.invert\<close>;
  \<^item> \<open>rand n shp\<close> is the \<open>n\<close>-th draw of \<^verbatim>\<open>np.random.rand\<close>, for the shape
    \<open>shp\<close>, and \<open>cast_out_of_range\<close> is what numpy's cast to \<^verbatim>\<open>uint8\<close> gives for
    a float outside the range of the type (it depends on the platform);
  \<^item> \<open>fromarray_empty\<close> is the message of the \<^verbatim>\<open>ValueError\<close> with which
    \<^verbatim>\<open>Image.fromarray\<close> refuses an array without elements, in the Pillow versions that
    refuse it, and \<open>None\<close> in those that return an empty image;
  \<^item> \<open>makedirs\<close> is \<^verbatim>\<open>os.makedirs(path, exist_ok=True)\<close> for a non-empty path, on
    the file system as it is;
  \<^item> \<open>process_images\<close> is the host's processing engine.
\<close>

record env =
  parse_weight :: "string \<Rightarrow> int \<Rightarrow> string + string"
  file_image :: "string \<Rightarrow> string + image"
  http_image :: "string \<Rightarrow> string + image"
  convert_pixels :: "mode \<Rightarrow> mode \<Rightarrow> pixel list \<Rightarrow> pixel list"
  resample :: "image \<Rightarrow> nat \<times> nat \<Rightarrow> pixel list"
  adjust_brightness :: "image \<Rightarrow> real \<Rightarrow> image"
  adjust_contrast :: "image \<Rightarrow> real \<Rightarrow> image"
  invert :: "image \<Rightarrow> image"
  rand :: "nat \<Rightarrow> nat list \<Rightarrow> real list"
  cast_out_of_range :: "real \<Rightarrow> 8 word"
  fromarray_empty :: "string option"
  makedirs :: "string \<Rightarrow> string + unit"
  process_images :: "request \<Rightarrow> string + processed"

text \<open>
  What the module does to the outside: the lines it prints, the image references it
  opens, the random draws it makes, the directories it creates and the requests it hands
  to the processing engine, each in order.
\<close>

record world =
  stdout :: "string list"
  opened :: "string list"
  rng_draws :: nat
  made_dirs :: "string list"
  dispatched :: "request list"

text \<open>
  A statement sequence that may raise: it returns the exception or the value, and the
  state as the statements left it.
\<close>

type_synonym ('s, 'a) prog = "'s \<Rightarrow> (error + 'a) \<times> 's"

definition ret :: "'a \<Rightarrow> ('s, 'a) prog" where
  "ret x = (\<lambda>s. (Inr x, s))"

definition raise :: "error \<Rightarrow> ('s, 'a) prog" where
  "raise e = (\<lambda>s. (Inl e, s))"

definition lift :: "error + 'a \<Rightarrow> ('s, 'a) prog" where
  "lift r = (\<lambda>s. (r, s))"

definition and_then :: "('s, 'a) prog \<Rightarrow> ('a \<Rightarrow> ('s, 'b) prog) \<Rightarrow> ('s, 'b) prog" where
  "and_then m k =
     (\<lambda>s. case m s of
            (Inl e, s') \<Rightarrow> (Inl e, s')
          | (Inr x, s') \<Rightarrow> k x s')"

definition modify :: "('s \<Rightarrow> 's) \<Rightarrow> ('s, unit) prog" where
  "modify f = (\<lambda>s. (Inr (), f s))"

definition py_assert :: "bool \<Rightarrow> string \<Rightarrow> ('s, unit) prog" where
  "py_assert b msg = (if b then ret () else raise (AssertionError msg))"

section \<open>PIL operations\<close>

text \<open>
  \<^verbatim>\<open>Image.convert(mode)\<close> returns a copy when the image already has the mode, and
  otherwise an image of the requested mode and the same size. \<^verbatim>\<open>Image.resize(size)\<close>
  returns an image of the same mode and the requested (width, height), and raises
  \<^verbatim>\<open>ValueError\<close> when the requested width or height is zero.
  \<^verbatim>\<open>Image.split\<close> returns one single-band image per band of the mode.
\<close>

definition convert :: "env \<Rightarrow> mode \<Rightarrow> image \<Rightarrow> image" where
  "convert E m im =
     (if im_mode im = m then im
      else im\<lparr>im_mode := m, im_pixels := convert_pixels E (im_mode im) m (im_pixels im)\<rparr>)"

definition resize :: "env \<Rightarrow> nat \<times> nat \<Rightarrow> image \<Rightarrow> error + image" where
  "resize E sz im =
     (if fst sz = 0 \<or> snd sz = 0
      then Inl (ValueError ''height and width must be > 0'')
      else Inr (im\<lparr>im_width := fst sz, im_height := snd sz, im_pixels := resample E im sz\<rparr>))"

definition band :: "image \<Rightarrow> nat \<Rightarrow> image" where
  "band im k = im\<lparr>im_mode := L, im_pixels := map (\<lambda>px. [px ! k]) (im_pixels im)\<rparr>"

definition split :: "image \<Rightarrow> image list" where
  "split im = map (band im) [0..<channels (im_mode im)]"

text \<open>
  numpy's \<^verbatim>\<open>astype(np.uint8)\<close> on one float: a value from 0 up to (not including) 256
  is truncated to the integer below it; any other value is outside the range of the
  type.
\<close>

definition astype_uint8 :: "env \<Rightarrow> real \<Rightarrow> 8 word" where
  "astype_uint8 E v = (if 0 \<le> v \<and> v < 256 then word_of_int \<lfloor>v\<rfloor> else cast_out_of_range E v)"

text \<open>
  \<^verbatim>\<open>Image.fromarray\<close> on a \<^verbatim>\<open>uint8\<close> array: the shape is (rows, columns) or
  (rows, columns, bands), so the image's width is the second dimension and its height
  the first. Two, three and four bands give LA, RGB and RGBA; any other array is refused
  with \<^verbatim>\<open>TypeError\<close>. Whether a banded array with no rows or no columns is refused
  depends on the Pillow version. The module passes arrays of three dimensions only.
\<close>

definition fromarray :: "env \<Rightarrow> nat list \<Rightarrow> 8 word list \<Rightarrow> error + image" where
  "fromarray E shp bytes =
     (case shp of
        [rows, cols] \<Rightarrow>
          Inr \<lparr>im_mode = L, im_width = cols, im_height = rows,
               im_pixels = map (\<lambda>i. [bytes ! i]) [0..<rows * cols]\<rparr>
      | [rows, cols, c] \<Rightarrow>
          (if c = 2 \<or> c = 3 \<or> c = 4
           then (case (if rows * cols = 0 then fromarray_empty E else None) of
                   Some msg \<Rightarrow> Inl (ValueError msg)
                 | None \<Rightarrow>
                     Inr \<lparr>im_mode = (if c = 2 then LA else if c = 3 then RGB else RGBA),
                          im_width = cols, im_height = rows,
                          im_pixels = map (\<lambda>i. take c (drop (i * c) bytes)) [0..<rows * cols]\<rparr>)
           else Inl (TypeError ''Cannot handle this data type''))
      | _ \<Rightarrow> Inl (TypeError ''Cannot handle this data type''))"

text \<open>
  einops' \<^verbatim>\<open>rearrange(x, 'c h w -> h w c')\<close>: the input must have three dimensions;
  element \<open>(i, j, k)\<close> of the output is element \<open>(k, i, j)\<close> of the input. In row-major
  order the output's element number \<open>n\<close> is at \<open>i = n div c div w\<close>, \<open>j = n div c mod w\<close>,
  \<open>k = n mod c\<close>, and the input's element \<open>(k, i, j)\<close> is number \<open>k * h * w + i * w + j\<close>.
\<close>

definition rearrange :: "ndarray \<Rightarrow> error + ndarray" where
  "rearrange x =
     (case shape x of
        [c, h, w] \<Rightarrow>
          Inr \<lparr>shape = [h, w, c],
               elems = map (\<lambda>n. elems x ! ((n mod c) * h * w + (n div c div w) * w + n div c mod w))
                         [0..<h * w * c]\<rparr>
      | _ \<Rightarrow> Inl (External ''EinopsError''))"

section \<open>The module's functions\<close>

text \<open>
  The names bound in the module's namespace by its import statements and its
  \<^verbatim>\<open>def\<close>s (lines 1 to 23, 25, 28, 51, 70 and 91). \<^verbatim>\<open>from PIL import Image, ImageOps\<close>
  binds \<^verbatim>\<open>Image\<close> and \<^verbatim>\<open>ImageOps\<close>; it does not bind \<^verbatim>\<open>PIL\<close>. Reading a
  name that is not bound raises \<^verbatim>\<open>NameError\<close>.
\<close>

definition module_globals :: "string list" where
  "module_globals =
     [''torch'', ''Image'', ''ImageOps'', ''requests'', ''np'', ''TF'', ''seed_everything'',
      ''os'', ''PLMSSampler'', ''DDIMSampler'', ''CompVisDenoiser'', ''autocast'',
      ''nullcontext'', ''rearrange'', ''get_uc_and_c'', ''parse_weight'', ''sampler_fn'',
      ''gaussian_filter'', ''SamplerCallback'', ''processing'', ''process_images'',
      ''add_noise'', ''load_img'', ''load_mask_latent'', ''prepare_mask'', ''generate'']"

definition global_name :: "string \<Rightarrow> error + unit" where
  "global_name n = (if n \<in> set module_globals then Inr () else Inl (NameError n))"

text \<open>Lines 30 to 33 and 56 to 59: open a reference as a URL or as a local path.\<close>

definition image_open :: "env \<Rightarrow> string \<Rightarrow> (world, image) prog" where
  "image_open E path =
     (\<lambda>w. (if prefix ''http://'' path \<or> prefix ''https://'' path
            then external (http_image E path)
            else external (file_image E path),
           w\<lparr>opened := opened w @ [path]\<rparr>))"

text \<open>\<^verbatim>\<open>load_img(path, shape, use_alpha_as_mask)\<close>, lines 28 to 49.\<close>

definition load_img ::
  "env \<Rightarrow> string \<Rightarrow> nat \<times> nat \<Rightarrow> bool \<Rightarrow> (world, image \<times> image option) prog" where
  "load_img E path shp use_alpha_as_mask =
     and_then (image_open E path) (\<lambda>image.
       let image = (if use_alpha_as_mask then convert E RGBA image else convert E RGB image)
       in and_then (lift (resize E shp image)) (\<lambda>image.
            if use_alpha_as_mask
            then (case split image of
                    [red, green, blue, alpha] \<Rightarrow>
                      ret (convert E RGB image, Some (convert E L alpha))
                  | _ \<Rightarrow> raise (ValueError ''not enough values to unpack (expected 4)''))
            else ret (image, None)))"

text \<open>\<^verbatim>\<open>shape[-k]\<close> for \<open>k \<ge> 1\<close>: the \<open>k\<close>-th element from the end, or IndexError.\<close>

definition from_end :: "'a list \<Rightarrow> nat \<Rightarrow> error + 'a" where
  "from_end xs k = (if 1 \<le> k \<and> k \<le> length xs then Inr (xs ! (length xs - k)) else Inl IndexError)"

text \<open>\<^verbatim>\<open>load_mask_latent(mask_input, shape)\<close>, lines 51 to 68.\<close>

definition load_mask_latent :: "env \<Rightarrow> pyobj \<Rightarrow> nat list \<Rightarrow> (world, image) prog" where
  "load_mask_latent E mask_input shp =
     and_then
       (case mask_input of
          Str path \<Rightarrow> and_then (image_open E path) (\<lambda>im. ret (convert E RGBA im))
        | Img im \<Rightarrow> ret im
        | NoneObj \<Rightarrow> raise (Exception ''mask_input must be a PIL image or a file name''))
       (\<lambda>mask_image.
          and_then (lift (from_end shp 1)) (\<lambda>w.
          and_then (lift (from_end shp 2)) (\<lambda>h.
          and_then (lift (resize E (w, h) mask_image)) (\<lambda>mask.
            let mask = convert E L mask
            in ret mask))))"

text \<open>
  \<^verbatim>\<open>prepare_mask(mask_input, mask_shape, mask_brightness_adjust, mask_contrast_adjust,
  invert_mask)\<close>, lines 70 to 89. Line 87 reads the global name \<^verbatim>\<open>PIL\<close>.
\<close>

definition prepare_mask ::
  "env \<Rightarrow> pyobj \<Rightarrow> nat list \<Rightarrow> real \<Rightarrow> real \<Rightarrow> bool \<Rightarrow> (world, image) prog" where
  "prepare_mask E mask_input mask_shape mask_brightness_adjust mask_contrast_adjust invert_mask =
     and_then (load_mask_latent E mask_input mask_shape) (\<lambda>mask.
       let mask = (if mask_brightness_adjust \<noteq> 1
                   then adjust_brightness E mask mask_brightness_adjust else mask);
           mask = (if mask_contrast_adjust \<noteq> 1
                   then adjust_contrast E mask mask_contrast_adjust else mask)
       in if invert_mask
          then and_then (lift (global_name ''PIL'')) (\<lambda>_. ret (invert E mask))
          else ret mask)"

section \<open>The arguments and the shared root\<close>

text \<open>
  \<open>args\<close> holds the fields of the caller's parameter object that \<^verbatim>\<open>generate\<close>
  reads; \<open>root\<close> is the record shared by all calls of a run. Python floats are
  real numbers here (the module only compares them with 0 and 1 and hands them on);
  \<^verbatim>\<open>args.sampler\<close> is an integer, so \<^verbatim>\<open>int(args.sampler)\<close> is that integer; the
  width and height are natural numbers.
\<close>

record args =
  prompt :: "string option"
  outdir :: string
  n_samples :: int
  W :: nat
  H :: nat
  steps :: int
  seed :: int
  save_samples :: bool
  make_grid :: bool
  sampler :: int
  mask_overlay_blur :: real
  scale :: real
  use_init :: bool
  strength :: real
  strength_0_no_init :: bool
  init_sample :: "ndarray option"
  init_image :: "string option"
  use_alpha_as_mask :: bool
  use_mask :: bool
  mask_file :: "string option"
  mask_contrast_adjust :: real
  mask_brightness_adjust :: real
  invert_mask :: bool
  overlay_mask :: bool

record root =
  p :: request
  outpath_samples :: string
  initial_seed :: "int option"
  initial_info :: "string option"
  first_frame :: "image option"

section \<open>\<^verbatim>\<open>generate\<close>\<close>

text \<open>
  The state one call of \<^verbatim>\<open>generate(args, root, frame, return_sample)\<close> works on:
  the two objects it mutates, and the outside world.
\<close>

record state =
  st_args :: args
  st_root :: root
  st_world :: world

definition in_world :: "(world, 'a) prog \<Rightarrow> (state, 'a) prog" where
  "in_world m = (\<lambda>s. case m (st_world s) of (r, w') \<Rightarrow> (r, s\<lparr>st_world := w'\<rparr>))"

text \<open>
  Line 108, \<^verbatim>\<open>os.makedirs(args.outdir, exist_ok=True)\<close>: the empty path is refused
  (FileNotFoundError, an OSError); any other path is created, or the file system refuses
  it.
\<close>

definition os_makedirs :: "env \<Rightarrow> string \<Rightarrow> (state, unit) prog" where
  "os_makedirs E path =
     (\<lambda>s. if path = []
          then (Inl (OSError ''No such file or directory''), s)
          else (case makedirs E path of
                  Inl msg \<Rightarrow> (Inl (OSError msg), s)
                | Inr _ \<Rightarrow>
                    (Inr (), s\<lparr>st_world := (st_world s)\<lparr>made_dirs :=
                               made_dirs (st_world s) @ [path]\<rparr>\<rparr>)))"

text \<open>Lines 106 to 122: \<^verbatim>\<open>p = root.p\<close>, the output directory, the scalar fields.\<close>

definition setup_pipeline :: "env \<Rightarrow> (state, unit) prog" where
  "setup_pipeline E =
     (\<lambda>s0. and_then (os_makedirs E (outdir (st_args s0))) (\<lambda>_. modify (\<lambda>s.
       let a = st_args s; r = st_root s in
       s\<lparr>st_root := r\<lparr>p := (p r)\<lparr>
           p_batch_size := n_samples a,
           p_width := W a,
           p_height := H a,
           p_steps := steps a,
           p_seed := seed a,
           p_do_not_save_samples := (\<not> save_samples a),
           p_do_not_save_grid := (\<not> make_grid a),
           p_sampler_index := sampler a,
           p_mask_blur := mask_overlay_blur a,
           p_extra_generation_params :=
             (p_extra_generation_params (p r))(''Mask blur'' \<mapsto> mask_overlay_blur a),
           p_n_iter := 1,
           p_cfg_scale := scale a,
           p_outpath_samples := outpath_samples r,
           p_outpath_grids := outpath_samples r\<rparr>\<rparr>\<rparr>)) s0)"

text \<open>Lines 124 to 129.\<close>

definition set_prompts :: "string \<Rightarrow> (state, unit) prog" where
  "set_prompts parsed_prompt =
     and_then (lift (neg_split parsed_prompt)) (\<lambda>(pos, neg).
       modify (\<lambda>s. s\<lparr>st_root := (st_root s)\<lparr>p := (p (st_root s))\<lparr>
         p_prompt := pos, p_negative_prompt := neg\<rparr>\<rparr>\<rparr>))"

text \<open>
  Lines 131 to 135: the two \<^verbatim>\<open>print\<close> calls, and the strength written to the request.
  The world's \<open>stdout\<close> holds one string per \<^verbatim>\<open>print\<close> call; the first string begins
  and the second ends with the newline character that the source writes as
  \<^verbatim>\<open>\n\<close>.
\<close>

definition strength_notice :: "string list" where
  "strength_notice =
     [CHR 0x0A # ''No init image, but strength > 0. Strength has been auto set to 0, since use_init is False.'',
      ''If you want to force strength > 0 with no init, please set strength_0_no_init to False.'' @ [CHR 0x0A]]"

definition strength_policy :: "(state, unit) prog" where
  "strength_policy =
     modify (\<lambda>s.
       let a = st_args s; w = st_world s;
           s = (if \<not> use_init a \<and> strength a > 0 \<and> strength_0_no_init a
                then s\<lparr>st_world := w\<lparr>stdout := stdout w @ strength_notice\<rparr>,
                       st_args := a\<lparr>strength := 0\<rparr>\<rparr>
                else s)
       in s\<lparr>st_root := (st_root s)\<lparr>p := (p (st_root s))\<lparr>
            p_denoising_strength := strength (st_args s)\<rparr>\<rparr>\<rparr>)"

text \<open>
  Lines 141 and 142: the carried-over sample is rearranged, scaled by 255 and stored
  back into \<^verbatim>\<open>args.init_sample\<close>, then cast to \<^verbatim>\<open>uint8\<close> and made an image.
\<close>

definition sample_to_image :: "env \<Rightarrow> ndarray \<Rightarrow> (state, image) prog" where
  "sample_to_image E x =
     and_then (lift (rearrange x)) (\<lambda>r.
       let scaled = r\<lparr>elems := map (\<lambda>v. 255 * v) (elems r)\<rparr> in
       and_then (modify (\<lambda>s. s\<lparr>st_args := (st_args s)\<lparr>init_sample := Some scaled\<rparr>\<rparr>)) (\<lambda>_.
         lift (fromarray E (shape scaled) (map (astype_uint8 E) (elems scaled)))))"

text \<open>
  Lines 150 and 151: \<^verbatim>\<open>a = np.random.rand(args.W, args.H, 3)*255\<close> is an array of
  shape \<open>(W, H, 3)\<close>; it is cast, made an image, and converted to RGB.
\<close>

definition noise_image :: "env \<Rightarrow> nat \<Rightarrow> nat \<Rightarrow> (state, image) prog" where
  "noise_image E w h =
     (\<lambda>s. let wd = st_world s;
               a = \<lparr>shape = [w, h, 3],
                    elems = map (\<lambda>v. v * 255) (rand E (rng_draws wd) [w, h, 3])\<rparr>;
               s' = s\<lparr>st_world := wd\<lparr>rng_draws := rng_draws wd + 1\<rparr>\<rparr>
           in and_then (lift (fromarray E (shape a) (map (astype_uint8 E) (elems a))))
                (\<lambda>im. ret (convert E RGB im)) s')"

text \<open>Lines 136 to 151: the init image and the mask that comes with it.\<close>

definition resolve_init :: "env \<Rightarrow> (state, image option \<times> image option) prog" where
  "resolve_init E =
     (\<lambda>s. let a = st_args s in
        (case init_sample a of
           Some x \<Rightarrow> and_then (sample_to_image E x) (\<lambda>im. ret (Some im, None))
         | None \<Rightarrow>
             if use_init a \<and> init_image a \<noteq> None \<and> init_image a \<noteq> Some []
             then and_then
                    (in_world (load_img E (the (init_image a)) (W a, H a) (use_alpha_as_mask a)))
                    (\<lambda>(im, mask_img). ret (Some im, mask_img))
             else and_then (noise_image E (W a) (H a)) (\<lambda>im. ret (Some im, None))) s)"

text \<open>
  \<^verbatim>\<open>init_image.shape\<close> on line 160. The variable holds a PIL image (or
  \<^verbatim>\<open>None\<close>); \<^verbatim>\<open>PIL.Image.Image\<close> has \<^verbatim>\<open>size\<close>, \<^verbatim>\<open>width\<close>, \<^verbatim>\<open>height\<close>
  and \<^verbatim>\<open>mode\<close> and no attribute \<^verbatim>\<open>shape\<close>, so the read raises AttributeError.
\<close>

definition getattr_shape :: "image option \<Rightarrow> error + nat list" where
  "getattr_shape obj =
     (case obj of
        None \<Rightarrow> Inl (AttributeError ''shape'')
      | Some im \<Rightarrow> Inl (AttributeError ''shape''))"

text \<open>
  Lines 154 to 170. The arguments of the call on line 159 are evaluated left to right:
  the mask source, \<^verbatim>\<open>init_image.shape\<close>, \<^verbatim>\<open>args.mask_contrast_adjust\<close>,
  \<^verbatim>\<open>args.mask_brightness_adjust\<close>, \<^verbatim>\<open>args.invert_mask\<close>, in this order and
  positionally.
\<close>

definition mask_source :: "string option \<Rightarrow> image option \<Rightarrow> pyobj" where
  "mask_source file mask_img =
     (case mask_img of
        None \<Rightarrow> (case file of None \<Rightarrow> NoneObj | Some f \<Rightarrow> Str f)
      | Some m \<Rightarrow> Img m)"

definition resolve_mask :: "env \<Rightarrow> image option \<Rightarrow> image option \<Rightarrow> (state, image option) prog" where
  "resolve_mask E init_img mask_img =
     (\<lambda>s. let a = st_args s in
        (if use_mask a
         then and_then (py_assert (mask_file a \<noteq> None \<or> mask_img \<noteq> None)
                 ''use_mask==True: An mask image is required for a mask. Please enter a mask_file or use an init image with an alpha channel'') (\<lambda>_.
              and_then (py_assert (use_init a)
                 ''use_mask==True: use_init is required for a mask'') (\<lambda>_.
              and_then (lift (getattr_shape init_img)) (\<lambda>shp.
              and_then (in_world (prepare_mask E (mask_source (mask_file a) mask_img) shp
                          (mask_contrast_adjust a) (mask_brightness_adjust a) (invert_mask a)))
                (\<lambda>mask. ret (Some mask)))))
         else ret None) s)"

text \<open>Line 172.\<close>

definition overlay_check :: "image option \<Rightarrow> (state, unit) prog" where
  "overlay_check init_img =
     (\<lambda>s. let a = st_args s in
        py_assert (\<not> ((use_mask a \<and> overlay_mask a) \<and> (init_sample a = None \<and> init_img = None)))
          ''Need an init image when use_mask == True and overlay_mask == True'' s)"

text \<open>Lines 174 to 177: the request is completed and handed to the engine.\<close>

definition dispatch :: "env \<Rightarrow> image option \<Rightarrow> image option \<Rightarrow> (state, processed) prog" where
  "dispatch E init_img prepared =
     (\<lambda>s. let r = st_root s; w = st_world s;
               req = (p r)\<lparr>p_init_images := [init_img], p_mask := prepared\<rparr>
           in (external (process_images E req),
               s\<lparr>st_root := r\<lparr>p := req\<rparr>,
                 st_world := w\<lparr>dispatched := dispatched w @ [req]\<rparr>\<rparr>))"

text \<open>\<^verbatim>\<open>processed.images[0]\<close>.\<close>

definition first_image :: "processed \<Rightarrow> error + image" where
  "first_image processed = (case pr_images processed of [] \<Rightarrow> Inl IndexError | im # _ \<Rightarrow> Inr im)"

text \<open>Lines 179 to 184: the first-result fields of the shared root.\<close>

definition record_first :: "processed \<Rightarrow> (state, unit) prog" where
  "record_first processed =
     and_then
       (modify (\<lambda>s. let r = st_root s in
          if initial_info r = None
          then s\<lparr>st_root := r\<lparr>initial_seed := Some (pr_seed processed),
                                initial_info := Some (pr_info processed)\<rparr>\<rparr>
          else s))
       (\<lambda>_ s. if first_frame (st_root s) = None
              then and_then (lift (first_image processed)) (\<lambda>im.
                     modify (\<lambda>s. s\<lparr>st_root := (st_root s)\<lparr>first_frame := Some im\<rparr>\<rparr>)) s
              else ret () s)"

text \<open>
  Lines 186 to 195. With \<^verbatim>\<open>return_sample\<close> the first statement reads the local
  variable \<^verbatim>\<open>image\<close>, which the function assigns nowhere before: UnboundLocalError.
\<close>

definition results :: "bool \<Rightarrow> processed \<Rightarrow> (state, image list) prog" where
  "results return_sample processed =
     (if return_sample
      then raise (UnboundLocalError ''image'')
      else and_then (lift (first_image processed)) (\<lambda>im. ret [im]))"

text \<open>Lines 139 to 177 of \<^verbatim>\<open>generate\<close>: from the init image to the engine's answer.\<close>

definition build_and_dispatch :: "env \<Rightarrow> (state, processed) prog" where
  "build_and_dispatch E =
     and_then (resolve_init E) (\<lambda>(init_img, mask_img).
     and_then (resolve_mask E init_img mask_img) (\<lambda>mask.
     and_then (overlay_check init_img) (\<lambda>_.
     dispatch E init_img mask)))"

text \<open>Line 103: every expression is evaluated with the frame index of this call.\<close>

definition substitute_expressions :: "env \<Rightarrow> int \<Rightarrow> string \<Rightarrow> error + string" where
  "substitute_expressions E frame text =
     re_sub (\<lambda>m. external (parse_weight E m frame)) text"

text \<open>Lines 93 to 135: the prompt, the scalar fields and the strength policy.\<close>

definition prepare_request :: "env \<Rightarrow> int \<Rightarrow> (state, unit) prog" where
  "prepare_request E frame =
     (\<lambda>s. (case prompt (st_args s) of
              None \<Rightarrow> raise (AssertionError [])
            | Some text \<Rightarrow>
                and_then (lift (substitute_expressions E frame text)) (\<lambda>parsed_prompt.
                and_then (setup_pipeline E) (\<lambda>_.
                and_then (set_prompts parsed_prompt) (\<lambda>_.
                strength_policy)))) s)"

text \<open>\<^verbatim>\<open>generate(args, root, frame, return_sample)\<close>, lines 91 to 195.\<close>

definition generate :: "env \<Rightarrow> int \<Rightarrow> bool \<Rightarrow> (state, image list) prog" where
  "generate E frame return_sample =
     and_then (prepare_request E frame) (\<lambda>_.
     and_then (build_and_dispatch E) (\<lambda>processed.
     and_then (record_first processed) (\<lambda>_.
     results return_sample processed)))"

section \<open>Conditions on a call\<close>

text \<open>
  The init image brings a mask with it exactly when it is loaded from the init reference
  with \<^verbatim>\<open>use_alpha_as_mask\<close> (lines 143 to 146).
\<close>

definition alpha_mask :: "args \<Rightarrow> bool" where
  "alpha_mask a =
     (init_sample a = None \<and> use_init a \<and> init_image a \<noteq> None \<and> init_image a \<noteq> Some []
      \<and> use_alpha_as_mask a)"

text \<open>
  The call gets as far as line 154: the prompt is present, and expression substitution,
  the creation of the output directory, the split of the prompt and the resolution of the
  init image (with the fetch and the resize of an explicit init image) raise nothing.
\<close>

definition reaches_mask_checks :: "env \<Rightarrow> int \<Rightarrow> state \<Rightarrow> bool" where
  "reaches_mask_checks E frame s =
     (case and_then (prepare_request E frame) (\<lambda>_. resolve_init E) s of
        (Inr _, _) \<Rightarrow> True
      | (Inl _, _) \<Rightarrow> False)"

text \<open>
  What the module relies on from PIL's pixel arithmetic: a conversion keeps the number of
  pixels and gives each pixel one value per channel of the target mode; resampling gives
  one pixel per position of the target size, each with one value per channel of the
  image's mode.
\<close>

definition codec_ok :: "env \<Rightarrow> bool" where
  "codec_ok E =
     ((\<forall>src dst pxs. length (convert_pixels E src dst pxs) = length pxs
          \<and> list_all (\<lambda>px. length px = channels dst) (convert_pixels E src dst pxs))
      \<and> (\<forall>im sz. length (resample E im sz) = fst sz * snd sz
          \<and> list_all (\<lambda>px. length px = channels (im_mode im)) (resample E im sz)))"

text \<open>
  A run of calls that share one root and one world: each call has its own argument
  object, and the run goes on as long as the calls return.
\<close>

fun generate_calls ::
  "env \<Rightarrow> (args \<times> int \<times> bool) list \<Rightarrow> root \<times> world \<Rightarrow> (root \<times> world) option" where
  "generate_calls E [] rw = Some rw"
| "generate_calls E ((a, frame, return_sample) # calls) rw =
     (case generate E frame return_sample \<lparr>st_args = a, st_root = fst rw, st_world = snd rw\<rparr> of
        (Inl e, s') \<Rightarrow> None
      | (Inr out, s') \<Rightarrow> generate_calls E calls (st_root s', st_world s'))"

section \<open>A concrete environment and call\<close>

text \<open>
  A small environment, argument object and root on which the theorems below are
  instantiated: one-pixel images on disk (\<^verbatim>\<open>alpha.png\<close> has an alpha channel), no
  network, a codec that adds an opaque alpha channel or drops it, takes the first band
  as luminance and fills a resized image with the first pixel of its source, and an
  engine that returns one image.
\<close>

definition example_image :: image where
  "example_image = \<lparr>im_mode = RGB, im_width = 1, im_height = 1, im_pixels = [[10, 20, 30]]\<rparr>"

definition example_alpha_image :: image where
  "example_alpha_image =
     \<lparr>im_mode = RGBA, im_width = 1, im_height = 1, im_pixels = [[10, 20, 30, 77]]\<rparr>"

definition fit :: "nat \<Rightarrow> pixel \<Rightarrow> pixel" where
  "fit n px = take n (px @ replicate n 0)"

definition example_convert :: "mode \<Rightarrow> mode \<Rightarrow> pixel list \<Rightarrow> pixel list" where
  "example_convert src dst pxs =
     map (\<lambda>px.
       let rgba = (case src of
                     L \<Rightarrow> fit 1 px @ fit 1 px @ fit 1 px @ [255]
                   | LA \<Rightarrow> [fit 2 px ! 0, fit 2 px ! 0, fit 2 px ! 0, fit 2 px ! 1]
                   | RGB \<Rightarrow> fit 3 px @ [255]
                   | RGBA \<Rightarrow> fit 4 px)
       in (case dst of
             L \<Rightarrow> [rgba ! 0]
           | LA \<Rightarrow> [rgba ! 0, rgba ! 3]
           | RGB \<Rightarrow> take 3 rgba
           | RGBA \<Rightarrow> rgba)) pxs"

definition example_resample :: "image \<Rightarrow> nat \<times> nat \<Rightarrow> pixel list" where
  "example_resample im sz =
     replicate (fst sz * snd sz)
       (fit (channels (im_mode im)) (case im_pixels im of [] \<Rightarrow> [] | px # _ \<Rightarrow> px))"

definition example_env :: env where
  "example_env =
     \<lparr>parse_weight = (\<lambda>m frame. Inr (if frame = 3 then ''3.0'' else ''1.0'')),
      file_image = (\<lambda>path. Inr (if path = ''alpha.png'' then example_alpha_image
                                else example_image)),
      http_image = (\<lambda>path. Inl ''unreachable''),
      convert_pixels = example_convert,
      resample = example_resample,
      adjust_brightness = (\<lambda>im f. im\<lparr>im_pixels := [1] # im_pixels im\<rparr>),
      adjust_contrast = (\<lambda>im f. im\<lparr>im_pixels := [2] # im_pixels im\<rparr>),
      invert = (\<lambda>im. im\<lparr>im_pixels := [3] # im_pixels im\<rparr>),
      rand = (\<lambda>n shp. replicate (prod_list shp) 0),
      cast_out_of_range = (\<lambda>v. 0),
      fromarray_empty = None,
      makedirs = (\<lambda>path. Inr ()),
      process_images =
        (\<lambda>req. Inr \<lparr>pr_images = [example_image], pr_seed = p_seed req, pr_info = p_prompt req\<rparr>)\<rparr>"

definition example_request :: request where
  "example_request =
     \<lparr>p_batch_size = 0, p_width = 0, p_height = 0, p_steps = 0, p_seed = 0,
      p_do_not_save_samples = False, p_do_not_save_grid = False, p_sampler_index = 0,
      p_mask_blur = 0, p_extra_generation_params = Map.empty, p_n_iter = 0, p_cfg_scale = 0,
      p_outpath_samples = [], p_outpath_grids = [], p_prompt = [], p_negative_prompt = [],
      p_denoising_strength = 1, p_init_images = [], p_mask = None\<rparr>"

definition example_args :: args where
  "example_args =
     \<lparr>prompt = Some ''A cat --neg dog'', outdir = ''out'', n_samples = 1, W = 2, H = 1,
      steps = 20, seed = 42, save_samples = True, make_grid = False, sampler = 0,
      mask_overlay_blur = 4, scale = 7, use_init = False, strength = 1 / 2,
      strength_0_no_init = True, init_sample = None, init_image = None,
      use_alpha_as_mask = False, use_mask = False, mask_file = None,
      mask_contrast_adjust = 1, mask_brightness_adjust = 1, invert_mask = False,
      overlay_mask = False\<rparr>"

definition example_root :: root where
  "example_root =
     \<lparr>p = example_request, outpath_samples = ''out/samples'', initial_seed = None,
      initial_info = None, first_frame = None\<rparr>"

definition empty_world :: world where
  "empty_world = \<lparr>stdout = [], opened = [], rng_draws = 0, made_dirs = [], dispatched = []\<rparr>"

definition example_state :: state where
  "example_state = \<lparr>st_args = example_args, st_root = example_root, st_world = empty_world\<rparr>"

section \<open>Helper lemmas\<close>

lemmas prog_defs =
  and_then_def ret_def raise_def lift_def modify_def py_assert_def in_world_def external_def

lemmas example_defs =
  example_state_def example_args_def example_root_def example_env_def empty_world_def
  example_request_def example_image_def example_alpha_image_def example_convert_def
  example_resample_def fit_def

lemma takeWhile_upto: "d \<notin> set body \<Longrightarrow> takeWhile (\<lambda>x. x \<noteq> d) (body @ d # s) = body"
  by (induction body) auto

lemma dropWhile_upto: "d \<notin> set body \<Longrightarrow> dropWhile (\<lambda>x. x \<noteq> d) (body @ d # s) = d # s"
  by (induction body) auto

lemma dropWhile_absent: "d \<notin> set cs \<Longrightarrow> dropWhile (\<lambda>x. x \<noteq> d) cs = []"
  by (induction cs) auto

lemma re_sub_plain:
  "backtick \<notin> set t \<Longrightarrow>
   re_sub repl (t @ s) = (case re_sub repl s of Inl e \<Rightarrow> Inl e | Inr out \<Rightarrow> Inr (t @ out))"
  by (induction t) (auto split: sum.splits)

lemma re_sub_expr:
  "backtick \<notin> set body \<Longrightarrow>
   re_sub repl (backtick # body @ backtick # s) =
     (case repl (backtick # body @ [backtick]) of
        Inl e \<Rightarrow> Inl e
      | Inr r \<Rightarrow> (case re_sub repl s of Inl e \<Rightarrow> Inl e | Inr out \<Rightarrow> Inr (r @ out)))"
  by (simp add: takeWhile_upto dropWhile_upto)

lemma re_sub_few: "count_list s backtick < 2 \<Longrightarrow> re_sub repl s = Inr s"
proof (induction s)
  case Nil
  then show ?case by simp
next
  case (Cons c cs)
  show ?case
  proof (cases "c = backtick")
    case True
    with Cons.prems have "backtick \<notin> set cs"
      by (simp add: count_list_0_iff)
    with True show ?thesis by (simp add: dropWhile_absent)
  next
    case False
    with Cons show ?thesis by simp
  qed
qed

lemma re_sub_segments:
  assumes "\<forall>seg \<in> set segs. no_backtick seg"
    and "\<forall>m \<in> set (expressions segs). repl m = Inr (ev m)"
    and "count_list tail backtick < 2"
  shows "re_sub repl (raw segs @ tail) = Inr (substituted ev segs @ tail)"
  using assms
proof (induction segs)
  case Nil
  then show ?case by (simp add: raw_def substituted_def re_sub_few)
next
  case (Cons seg segs)
  then have IH: "re_sub repl (raw segs @ tail) = Inr (substituted ev segs @ tail)"
    by (cases seg) auto
  show ?case
  proof (cases seg)
    case (Plain t)
    with Cons.prems IH show ?thesis
      by (simp add: raw_def substituted_def re_sub_plain)
  next
    case (Expr body)
    with Cons.prems IH show ?thesis
      by (simp add: raw_def substituted_def re_sub_expr del: re_sub.simps)
  qed
qed

text \<open>The first evaluator failure leaves the substitution, with that failure.\<close>

lemma re_sub_failure:
  assumes "\<forall>seg \<in> set segs. no_backtick seg"
    and "\<forall>m \<in> set (expressions segs). repl m = Inr (ev m)"
    and "backtick \<notin> set body"
    and "repl (backtick # body @ [backtick]) = Inl e"
  shows "re_sub repl (raw segs @ backtick # body @ backtick # rest) = Inl e"
  using assms
proof (induction segs)
  case Nil
  then show ?case by (simp add: raw_def re_sub_expr del: re_sub.simps)
next
  case (Cons seg segs)
  then have IH: "re_sub repl (raw segs @ backtick # body @ backtick # rest) = Inl e"
    by (cases seg) auto
  show ?case
  proof (cases seg)
    case (Plain t)
    with Cons.prems IH show ?thesis
      by (simp add: raw_def re_sub_plain)
  next
    case (Expr b)
    with Cons.prems IH show ?thesis
      by (simp add: raw_def re_sub_expr del: re_sub.simps)
  qed
qed

lemma re_matches_plain: "backtick \<notin> set t \<Longrightarrow> re_matches (t @ s) = re_matches s"
  by (induction t) auto

lemma re_matches_few: "count_list s backtick < 2 \<Longrightarrow> re_matches s = []"
proof (induction s)
  case Nil
  then show ?case by simp
next
  case (Cons c cs)
  show ?case
  proof (cases "c = backtick")
    case True
    with Cons.prems have "backtick \<notin> set cs"
      by (simp add: count_list_0_iff)
    with True show ?thesis by (simp add: dropWhile_absent)
  next
    case False
    with Cons show ?thesis by simp
  qed
qed

lemma re_matches_segments:
  "\<forall>seg \<in> set segs. no_backtick seg \<Longrightarrow> count_list tail backtick < 2 \<Longrightarrow>
   re_matches (raw segs @ tail) = expressions segs"
proof (induction segs)
  case Nil
  then show ?case by (simp add: raw_def re_matches_few)
next
  case (Cons seg segs)
  then show ?case
    by (cases seg) (simp_all add: raw_def re_matches_plain takeWhile_upto dropWhile_upto)
qed

text \<open>
  Every prompt is of the form the spec describes: plain text and delimited expressions,
  followed by a rest with at most one (unmatched) backtick.
\<close>

lemma prompt_decomposition:
  "\<exists>segs tail. s = raw segs @ tail \<and> (\<forall>seg \<in> set segs. no_backtick seg) \<and>
     count_list tail backtick < 2"
proof (induction s rule: re_matches.induct)
  case 1
  have "[] = raw [] @ []" by (simp add: raw_def)
  then show ?case by fastforce
next
  case (2 c cs)
  show ?case
  proof (cases "c = backtick")
    case False
    with 2 obtain segs tail where st: "cs = raw segs @ tail"
      "\<forall>seg \<in> set segs. no_backtick seg" "count_list tail backtick < 2"
      by blast
    from st False have "c # cs = raw (Plain [c] # segs) @ tail \<and>
      (\<forall>seg \<in> set (Plain [c] # segs). no_backtick seg) \<and> count_list tail backtick < 2"
      by (simp add: raw_def)
    then show ?thesis by blast
  next
    case True
    show ?thesis
    proof (cases "dropWhile (\<lambda>x. x \<noteq> backtick) cs")
      case Nil
      then have "backtick \<notin> set cs"
        by auto
      then have "count_list (c # cs) backtick < 2"
        using True by (simp add: count_list_0_iff)
      moreover have "c # cs = raw [] @ (c # cs)" by (simp add: raw_def)
      ultimately have "c # cs = raw [] @ (c # cs) \<and>
        (\<forall>seg \<in> set []. no_backtick seg) \<and> count_list (c # cs) backtick < 2"
        by simp
      then show ?thesis by blast
    next
      case (Cons x rest)
      with 2 True obtain segs tail where st: "rest = raw segs @ tail"
        "\<forall>seg \<in> set segs. no_backtick seg" "count_list tail backtick < 2"
        by blast
      define body where "body = takeWhile (\<lambda>x. x \<noteq> backtick) cs"
      have x: "x = backtick"
        using Cons hd_dropWhile [of "\<lambda>x. x \<noteq> backtick" cs] by simp
      have "cs = body @ x # rest"
        using Cons takeWhile_dropWhile_id [of "\<lambda>x. x \<noteq> backtick" cs] by (simp add: body_def)
      moreover have "backtick \<notin> set body"
        unfolding body_def by (auto dest: set_takeWhileD)
      ultimately have "c # cs = raw (Expr body # segs) @ tail \<and>
        (\<forall>seg \<in> set (Expr body # segs). no_backtick seg) \<and> count_list tail backtick < 2"
        using st True x by (simp add: raw_def)
      then show ?thesis by blast
    qed
  qed
qed

lemma convert_mode [simp]: "im_mode (convert E m im) = m"
  by (simp add: convert_def)

lemma convert_size [simp]:
  "im_width (convert E m im) = im_width im" "im_height (convert E m im) = im_height im"
  by (simp_all add: convert_def)

lemma split_RGBA:
  "im_mode im = RGBA \<Longrightarrow> split im = [band im 0, band im 1, band im 2, band im 3]"
  by (simp add: split_def upt_rec numeral_eq_Suc)

lemma resize_result:
  "resize E sz im = Inr im' \<Longrightarrow>
     im_mode im' = im_mode im \<and> im_width im' = fst sz \<and> im_height im' = snd sz \<and>
     im_pixels im' = resample E im sz \<and> 0 < fst sz \<and> 0 < snd sz"
  by (auto simp add: resize_def split: if_splits)

lemma resize_error: "resize E sz im = Inl e \<Longrightarrow> \<not> assertion_error e"
  by (auto simp add: resize_def split: if_splits)

text \<open>The mask stage never gets past line 160, and leaves the state as it found it.\<close>

lemma resolve_mask_eval:
  "resolve_mask E init_img mask_img s =
     (if use_mask (st_args s)
      then (if mask_file (st_args s) = None \<and> mask_img = None
            then Inl (AssertionError ''use_mask==True: An mask image is required for a mask. Please enter a mask_file or use an init image with an alpha channel'')
            else if \<not> use_init (st_args s)
            then Inl (AssertionError ''use_mask==True: use_init is required for a mask'')
            else Inl (AttributeError ''shape''))
      else Inr None, s)"
  by (simp add: resolve_mask_def getattr_shape_def prog_defs Let_def split: option.splits)

lemma noise_image_eval:
  "noise_image E w h s =
     (case (if w * h = 0 then fromarray_empty E else None) of
        Some msg \<Rightarrow> Inl (ValueError msg)
      | None \<Rightarrow>
          Inr \<lparr>im_mode = RGB, im_width = h, im_height = w,
               im_pixels = map (\<lambda>n. take 3 (drop (n * 3)
                   (map (\<lambda>v. astype_uint8 E (v * 255)) (rand E (rng_draws (st_world s)) [w, h, 3]))))
                 [0..<w * h]\<rparr>,
      s\<lparr>st_world := (st_world s)\<lparr>rng_draws := rng_draws (st_world s) + 1\<rparr>\<rparr>)"
  by (simp add: noise_image_def fromarray_def convert_def prog_defs Let_def comp_def
      split: option.splits)

lemma noise_image_size:
  "0 < w * h \<Longrightarrow> \<exists>im s'. noise_image E w h s = (Inr im, s') \<and> im_mode im = RGB
     \<and> im_width im = h \<and> im_height im = w"
  by (simp add: noise_image_eval)

lemma load_img_eval:
  "load_img E path shp use_alpha w =
     (case image_open E path w of
        (Inl e, w') \<Rightarrow> (Inl e, w')
      | (Inr src, w') \<Rightarrow>
          (case resize E shp (convert E (if use_alpha then RGBA else RGB) src) of
             Inl e \<Rightarrow> (Inl e, w')
           | Inr im \<Rightarrow>
               if use_alpha then (Inr (convert E RGB im, Some (band im 3)), w')
               else (Inr (im, None), w')))"
proof (cases "image_open E path w")
  case (Pair r w')
  show ?thesis
  proof (cases r)
    case (Inl e)
    with Pair show ?thesis by (simp add: load_img_def prog_defs)
  next
    case (Inr src)
    show ?thesis
    proof (cases "resize E shp (convert E (if use_alpha then RGBA else RGB) src)")
      case (Inl e)
      with Pair Inr show ?thesis
        by (auto simp add: load_img_def prog_defs Let_def)
    next
      case res: (Inr im)
      show ?thesis
      proof (cases use_alpha)
        case True
        with res have "im_mode im = RGBA"
          using resize_result [of E shp "convert E RGBA src" im] by simp
        with Pair Inr res True show ?thesis
          by (simp add: load_img_def prog_defs Let_def split_RGBA convert_def [of E L] band_def)
      next
        case False
        with Pair Inr res show ?thesis
          by (simp add: load_img_def prog_defs Let_def)
      qed
    qed
  qed
qed

lemma image_open_world:
  "image_open E path w = (r, w') \<Longrightarrow>
     w' = w\<lparr>opened := opened w @ [path]\<rparr> \<and> (\<forall>e. r = Inl e \<longrightarrow> (\<exists>msg. e = External msg))"
  by (auto simp add: image_open_def external_def split: sum.splits if_splits)

lemma load_img_mask:
  "load_img E path shp use_alpha w = (Inr (im, m), w') \<Longrightarrow>
     (m \<noteq> None) = use_alpha \<and> opened w' = opened w @ [path] \<and>
     stdout w' = stdout w \<and> rng_draws w' = rng_draws w \<and> made_dirs w' = made_dirs w \<and>
     dispatched w' = dispatched w"
  by (auto simp add: load_img_eval split: prod.splits sum.splits if_splits
      dest!: image_open_world)

lemma load_img_world:
  "load_img E path shp use_alpha w = (r, w') \<Longrightarrow> w' = w\<lparr>opened := opened w @ [path]\<rparr>"
  by (auto simp add: load_img_eval split: prod.splits sum.splits if_splits
      dest!: image_open_world)

lemma load_img_error:
  "load_img E path shp use_alpha w = (Inl e, w') \<Longrightarrow> \<not> assertion_error e"
  by (auto simp add: load_img_eval split: prod.splits sum.splits if_splits
      dest!: image_open_world resize_error)

lemma resolve_init_frame:
  "resolve_init E s = (r, s') \<Longrightarrow>
     st_root s' = st_root s \<and>
     stdout (st_world s') = stdout (st_world s) \<and>
     made_dirs (st_world s') = made_dirs (st_world s) \<and>
     dispatched (st_world s') = dispatched (st_world s) \<and>
     st_args s' = (st_args s)\<lparr>init_sample := init_sample (st_args s')\<rparr> \<and>
     (init_sample (st_args s') = None) = (init_sample (st_args s) = None)"
  apply (cases "init_sample (st_args s)")
   apply (auto simp add: resolve_init_def  Let_def noise_image_eval and_then_def ret_def in_world_def split: prod.splits sum.splits if_splits option.splits dest!: load_img_world)[1]
  apply (auto simp add: resolve_init_def sample_to_image_def rearrange_def fromarray_def prog_defs Let_def split: prod.splits sum.splits if_splits list.splits option.splits)
  done


lemma resolve_init_args:
  "resolve_init E s = (r, s') \<Longrightarrow> \<exists>v. st_args s' = (st_args s)\<lparr>init_sample := v\<rparr>"
  using resolve_init_frame by blast

lemma resolve_init_result:
  "resolve_init E s = (Inr (i, m), s') \<Longrightarrow> i \<noteq> None \<and> (m \<noteq> None) = alpha_mask (st_args s)"
  apply (cases "init_sample (st_args s)")
   apply (auto simp add: resolve_init_def alpha_mask_def Let_def noise_image_eval and_then_def ret_def in_world_def split: prod.splits sum.splits if_splits option.splits dest!: load_img_mask)[1]
  apply (auto simp add: resolve_init_def alpha_mask_def sample_to_image_def prog_defs Let_def split: prod.splits sum.splits if_splits)
  done

lemma resolve_init_error:
  "resolve_init E s = (Inl e, s') \<Longrightarrow> \<not> assertion_error e"
  apply (cases "init_sample (st_args s)")
   apply (auto simp add: resolve_init_def Let_def noise_image_eval and_then_def ret_def in_world_def split: prod.splits sum.splits if_splits option.splits dest!: load_img_error)[1]
  apply (auto simp add: resolve_init_def sample_to_image_def rearrange_def fromarray_def prog_defs Let_def split: prod.splits sum.splits if_splits list.splits option.splits)
  done

lemma re_sub_error: "re_sub repl s = Inl e \<Longrightarrow> \<exists>m. repl m = Inl e"
proof (induction repl s rule: re_sub.induct)
  case (1 repl)
  then show ?case by simp
next
  case (2 repl c cs)
  then show ?case
    by (auto split: if_splits list.splits sum.splits)
qed

lemma substitute_expressions_error:
  "substitute_expressions E frame text = Inl e \<Longrightarrow> \<exists>msg. e = External msg"
  by (auto simp add: substitute_expressions_def external_def dest!: re_sub_error split: sum.splits)

lemma neg_split_error: "neg_split t = Inl e \<Longrightarrow> \<exists>msg. e = ValueError msg"
  by (auto simp add: neg_split_def Let_def split: if_splits list.splits)

lemma prepare_request_None:
  "prompt (st_args s) = None \<Longrightarrow> prepare_request E frame s = (Inl (AssertionError []), s)"
  by (simp add: prepare_request_def raise_def)

lemma prepare_request_error:
  "prompt (st_args s) \<noteq> None \<Longrightarrow> prepare_request E frame s = (Inl e, s') \<Longrightarrow>
     \<not> assertion_error e"
  by (auto simp add: prepare_request_def prog_defs set_prompts_def setup_pipeline_def os_makedirs_def
      strength_policy_def Let_def
      split: sum.splits prod.splits if_splits dest!: substitute_expressions_error neg_split_error)

lemma prepare_request_frame:
  "prepare_request E frame s = (r, s') \<Longrightarrow>
     dispatched (st_world s') = dispatched (st_world s) \<and>
     opened (st_world s') = opened (st_world s) \<and>
     rng_draws (st_world s') = rng_draws (st_world s) \<and>
     initial_seed (st_root s') = initial_seed (st_root s) \<and>
     initial_info (st_root s') = initial_info (st_root s) \<and>
     first_frame (st_root s') = first_frame (st_root s) \<and>
     st_args s' = (st_args s)\<lparr>strength := strength (st_args s')\<rparr>"
  by (auto simp add: prepare_request_def prog_defs set_prompts_def setup_pipeline_def os_makedirs_def
      strength_policy_def Let_def
      split: sum.splits prod.splits if_splits option.splits)

lemma prepare_request_args:
  "prepare_request E frame s = (r, s') \<Longrightarrow> \<exists>v. st_args s' = (st_args s)\<lparr>strength := v\<rparr>"
  using prepare_request_frame by blast

lemma prepare_request_strength:
  "prepare_request E frame s = (Inr u, s') \<Longrightarrow>
     strength (st_args s') =
       (if \<not> use_init (st_args s) \<and> strength (st_args s) > 0 \<and> strength_0_no_init (st_args s)
        then 0 else strength (st_args s)) \<and>
     p_denoising_strength (p (st_root s')) = strength (st_args s') \<and>
     stdout (st_world s') = stdout (st_world s) @
       (if \<not> use_init (st_args s) \<and> strength (st_args s) > 0 \<and> strength_0_no_init (st_args s)
        then strength_notice else [])"
  by (auto simp add: prepare_request_def prog_defs set_prompts_def setup_pipeline_def os_makedirs_def
      strength_policy_def Let_def
      split: sum.splits prod.splits if_splits option.splits)


lemma build_and_dispatch_unfold:
  "build_and_dispatch E s =
     (case resolve_init E s of
        (Inl e, s2) \<Rightarrow> (Inl e, s2)
      | (Inr (i, m), s2) \<Rightarrow>
          if use_mask (st_args s2)
          then (case fst (resolve_mask E i m s2) of Inl e \<Rightarrow> (Inl e, s2) | Inr v \<Rightarrow> (Inl (AttributeError ''shape''), s2))
          else dispatch E i None s2)"
  by (simp add: build_and_dispatch_def and_then_def resolve_mask_eval overlay_check_def py_assert_def
      ret_def raise_def Let_def split: prod.splits sum.splits)

lemma generate_unfold:
  "generate E frame rs s =
     (case prepare_request E frame s of
        (Inl e, s1) \<Rightarrow> (Inl e, s1)
      | (Inr u, s1) \<Rightarrow>
          (case build_and_dispatch E s1 of
             (Inl e, s2) \<Rightarrow> (Inl e, s2)
           | (Inr pr, s2) \<Rightarrow> and_then (record_first pr) (\<lambda>_. results rs pr) s2))"
  by (simp add: generate_def and_then_def split: prod.splits sum.splits)

lemma overlay_check_passes:
  "resolve_init E s = (Inr (i, m), s2) \<Longrightarrow> overlay_check i s3 = (Inr (), s3)"
  by (auto simp add: overlay_check_def py_assert_def ret_def Let_def dest: resolve_init_result)

lemma dispatch_error: "dispatch E i m s = (Inl e, s') \<Longrightarrow> \<not> assertion_error e"
  by (auto simp add: dispatch_def external_def Let_def split: sum.splits)

lemma dispatch_world:
  "dispatch E i m s = (r, s') \<Longrightarrow>
     \<exists>req. dispatched (st_world s') = dispatched (st_world s) @ [req] \<and> p (st_root s') = req \<and>
       req = (p (st_root s))\<lparr>p_init_images := [i], p_mask := m\<rparr> \<and>
       r = external (process_images E req) \<and>
       stdout (st_world s') = stdout (st_world s) \<and> st_args s' = st_args s \<and>
       initial_seed (st_root s') = initial_seed (st_root s) \<and>
       initial_info (st_root s') = initial_info (st_root s) \<and>
       first_frame (st_root s') = first_frame (st_root s)"
  by (auto simp add: dispatch_def Let_def)

lemma finish_error:
  "and_then (record_first pr) (\<lambda>_. results rs pr) s = (Inl e, s') \<Longrightarrow> \<not> assertion_error e"
  by (auto simp add: record_first_def results_def first_image_def prog_defs Let_def
      split: if_splits sum.splits prod.splits list.splits)

lemma finish_frame:
  "and_then (record_first pr) (\<lambda>_. results rs pr) s = (r, s') \<Longrightarrow>
     st_world s' = st_world s \<and> st_args s' = st_args s \<and> p (st_root s') = p (st_root s)"
  by (auto simp add: record_first_def results_def first_image_def prog_defs Let_def
      split: if_splits sum.splits prod.splits list.splits)

lemma alpha_mask_strength: "alpha_mask (a\<lparr>strength := v\<rparr>) = alpha_mask a"
  by (simp add: alpha_mask_def)

lemmas stage_defs =
  generate_def prepare_request_def build_and_dispatch_def substitute_expressions_def
  setup_pipeline_def set_prompts_def strength_policy_def resolve_init_def noise_image_def
  sample_to_image_def resolve_mask_def overlay_check_def dispatch_def record_first_def
  results_def first_image_def getattr_shape_def mask_source_def fromarray_def convert_def
  load_img_def image_open_def resize_def os_makedirs_def astype_uint8_def

lemma neg_split_one_marker: "neg_split ''A cat --neg dog'' = Inr (''A cat '', '' dog'')"
  by code_simp

lemma neg_split_no_marker: "neg_split ''A cat'' = Inr (''A cat'', [])"
  by code_simp

lemma band_props [simp]:
  "im_mode (band im k) = L" "im_width (band im k) = im_width im"
  "im_height (band im k) = im_height im"
  by (simp_all add: band_def)

lemma example_open:
  "image_open example_env ''init.png'' empty_world =
     (Inr example_image, empty_world\<lparr>opened := [''init.png'']\<rparr>)"
  by (simp add: image_open_def example_defs prog_defs)

text \<open>
  Without inversion, \<^verbatim>\<open>prepare_mask\<close> adjusts the brightness, then the contrast, each
  only for a factor other than 1. With inversion it raises \<^verbatim>\<open>NameError\<close> once the mask
  is loaded and adjusted.
\<close>

lemma prepare_mask_plain:
  assumes "load_mask_latent E mask_input shp w = (Inr m, w')"
  shows "prepare_mask E mask_input shp b c False w =
     (Inr (let m1 = (if b \<noteq> 1 then adjust_brightness E m b else m)
           in (if c \<noteq> 1 then adjust_contrast E m1 c else m1)), w')"
  using assms by (simp add: prepare_mask_def prog_defs Let_def)

lemma prepare_mask_invert:
  assumes "load_mask_latent E mask_input shp w = (Inr m, w')"
  shows "prepare_mask E mask_input shp b c True w = (Inl (NameError ''PIL''), w')"
  using assms
  by (simp add: prepare_mask_def prog_defs Let_def global_name_def module_globals_def)

lemma build_and_dispatch_frame:
  assumes "build_and_dispatch E s = (r, s')"
  shows "p_denoising_strength (p (st_root s')) = p_denoising_strength (p (st_root s))
     \<and> stdout (st_world s') = stdout (st_world s)
     \<and> initial_seed (st_root s') = initial_seed (st_root s)
     \<and> initial_info (st_root s') = initial_info (st_root s)
     \<and> first_frame (st_root s') = first_frame (st_root s)
     \<and> ((dispatched (st_world s') = dispatched (st_world s) \<and> (\<exists>e. r = Inl e))
        \<or> (\<exists>req. dispatched (st_world s') = dispatched (st_world s) @ [req]
              \<and> p_denoising_strength req = p_denoising_strength (p (st_root s))
              \<and> r = external (process_images E req)))"
proof -
  obtain r2 s2 where ri: "resolve_init E s = (r2, s2)"
    by (cases "resolve_init E s")
  note fr = resolve_init_frame [OF ri]
  show ?thesis
  proof (cases r2)
    case (Inl e)
    with assms ri fr show ?thesis
      by (auto simp add: build_and_dispatch_unfold)
  next
    case (Inr im)
    obtain i m where im: "im = (i, m)" by (cases im)
    show ?thesis
    proof (cases "use_mask (st_args s2)")
      case True
      with assms ri Inr im fr show ?thesis
        by (auto simp add: build_and_dispatch_unfold split: sum.splits)
    next
      case False
      with assms ri Inr im have d: "dispatch E i None s2 = (r, s')"
        by (simp add: build_and_dispatch_unfold)
      from dispatch_world [OF d] fr show ?thesis
        by auto
    qed
  qed
qed

lemma finish_first_result:
  assumes "and_then (record_first pr) (\<lambda>_. results rs pr) s = (r, s')"
  shows "(initial_info (st_root s) \<noteq> None \<longrightarrow>
            initial_info (st_root s') = initial_info (st_root s) \<and>
            initial_seed (st_root s') = initial_seed (st_root s))
       \<and> (first_frame (st_root s) \<noteq> None \<longrightarrow> first_frame (st_root s') = first_frame (st_root s))
       \<and> (\<forall>out. r = Inr out \<longrightarrow>
            (\<exists>im. first_image pr = Inr im \<and> out = [im] \<and>
               (first_frame (st_root s) = None \<longrightarrow> first_frame (st_root s') = Some im)) \<and>
            (initial_info (st_root s) = None \<longrightarrow>
               initial_info (st_root s') = Some (pr_info pr) \<and>
               initial_seed (st_root s') = Some (pr_seed pr)))"
  using assms
  by (auto simp add: record_first_def results_def prog_defs Let_def
      split: if_splits sum.splits prod.splits)


lemma generate_first_result_kept:
  assumes "generate E frame rs s = (r, s')"
  shows "(initial_info (st_root s) \<noteq> None \<longrightarrow>
            initial_info (st_root s') = initial_info (st_root s) \<and>
            initial_seed (st_root s') = initial_seed (st_root s))
       \<and> (first_frame (st_root s) \<noteq> None \<longrightarrow> first_frame (st_root s') = first_frame (st_root s))"
proof -
  obtain r1 s1 where pr: "prepare_request E frame s = (r1, s1)"
    by (cases "prepare_request E frame s")
  note f1 = prepare_request_frame [OF pr]
  show ?thesis
  proof (cases r1)
    case (Inl e)
    with assms pr f1 show ?thesis by (simp add: generate_unfold)
  next
    case (Inr u)
    obtain r2 s2 where bd: "build_and_dispatch E s1 = (r2, s2)"
      by (cases "build_and_dispatch E s1")
    note f2 = build_and_dispatch_frame [OF bd]
    show ?thesis
    proof (cases r2)
      case (Inl e)
      with assms pr \<open>r1 = Inr u\<close> bd f1 f2 show ?thesis by (simp add: generate_unfold)
    next
      case (Inr res)
      with assms pr \<open>r1 = Inr u\<close> bd
      have fin: "and_then (record_first res) (\<lambda>_. results rs res) s2 = (r, s')"
        by (simp add: generate_unfold)
      from finish_first_result [OF fin] f1 f2 show ?thesis by simp
    qed
  qed
qed

lemma generate_success:
  assumes "generate E frame rs s = (Inr out, s')"
  shows "\<exists>req res im. dispatched (st_world s') = dispatched (st_world s) @ [req]
           \<and> process_images E req = Inr res \<and> first_image res = Inr im \<and> out = [im]
           \<and> (initial_info (st_root s) = None \<longrightarrow>
                initial_info (st_root s') = Some (pr_info res) \<and>
                initial_seed (st_root s') = Some (pr_seed res))
           \<and> (first_frame (st_root s) = None \<longrightarrow> first_frame (st_root s') = Some im)"
proof -
  obtain r1 s1 where pr: "prepare_request E frame s = (r1, s1)"
    by (cases "prepare_request E frame s")
  note f1 = prepare_request_frame [OF pr]
  from assms pr obtain u where r1: "r1 = Inr u"
    by (cases r1) (simp_all add: generate_unfold)
  obtain r2 s2 where bd: "build_and_dispatch E s1 = (r2, s2)"
    by (cases "build_and_dispatch E s1")
  note f2 = build_and_dispatch_frame [OF bd]
  from assms pr r1 bd obtain res where r2: "r2 = Inr res"
    by (cases r2) (simp_all add: generate_unfold)
  with assms pr r1 bd
  have fin: "and_then (record_first res) (\<lambda>_. results rs res) s2 = (Inr out, s')"
    by (simp add: generate_unfold)
  note f3 = finish_first_result [OF fin] finish_frame [OF fin]
  from f2 r2 obtain req where req: "dispatched (st_world s2) = dispatched (st_world s1) @ [req]"
    "Inr res = external (process_images E req)"
    by auto
  from req(2) have "process_images E req = Inr res"
    by (simp add: external_def split: sum.splits)
  with req(1) f1 f2 f3 show ?thesis
    by auto
qed

lemma generate_calls_kept:
  "generate_calls E calls (r, w) = Some (r', w') \<Longrightarrow>
     (initial_info r \<noteq> None \<longrightarrow> initial_info r' = initial_info r \<and> initial_seed r' = initial_seed r)
   \<and> (first_frame r \<noteq> None \<longrightarrow> first_frame r' = first_frame r)"
proof (induction calls arbitrary: r w)
  case Nil
  then show ?case by simp
next
  case (Cons c calls)
  obtain a frame rs where c: "c = (a, frame, rs)" by (cases c)
  obtain res s1 where g: "generate E frame rs \<lparr>st_args = a, st_root = r, st_world = w\<rparr> = (res, s1)"
    by (cases "generate E frame rs \<lparr>st_args = a, st_root = r, st_world = w\<rparr>")
  with Cons.prems c obtain out where out: "res = Inr out"
    by (cases res) simp_all
  with Cons.prems c g have rest: "generate_calls E calls (st_root s1, st_world s1) = Some (r', w')"
    by simp
  from generate_first_result_kept [OF g] Cons.IH [OF rest] show ?case
    by auto
qed

lemma example_prepare:
  "prepare_request example_env 0 example_state =
     (Inr (), snd (prepare_request example_env 0 example_state))"
  by (simp add: stage_defs prog_defs example_defs neg_split_one_marker Let_def)


lemma reaches_example:
  "reaches_mask_checks example_env 0 (example_state\<lparr>st_args := example_args\<lparr>use_mask := True\<rparr>\<rparr>)"
  by (simp add: reaches_mask_checks_def stage_defs prog_defs example_defs neg_split_one_marker Let_def)

text \<open>
  A precondition error comes from the absent prompt or from one of the two mask checks,
  and a mask check fails whenever it is reached with its condition false.
\<close>

lemma precondition_error_iff:
  "is_assertion (fst (generate E frame rs s)) =
     (prompt (st_args s) = None \<or>
      (reaches_mask_checks E frame s \<and> use_mask (st_args s) \<and>
         ((mask_file (st_args s) = None \<and> \<not> alpha_mask (st_args s)) \<or> \<not> use_init (st_args s))))
   \<and> (is_assertion (fst (generate E frame rs s)) \<longrightarrow>
        dispatched (st_world (snd (generate E frame rs s))) = dispatched (st_world s))"
proof (cases "prompt (st_args s)")
  case None
  then show ?thesis
    by (simp add: generate_unfold prepare_request_None)
next
  case (Some given)
  obtain r1 s1 where pr: "prepare_request E frame s = (r1, s1)"
    by (cases "prepare_request E frame s")
  note fr1 = prepare_request_frame [OF pr]
  show ?thesis
  proof (cases r1)
    case (Inl e)
    with pr Some have "\<not> assertion_error e"
      using prepare_request_error by blast
    with pr Inl Some show ?thesis
      by (simp add: generate_unfold reaches_mask_checks_def and_then_def)
  next
    case (Inr u)
    obtain r2 s2 where ri: "resolve_init E s1 = (r2, s2)"
      by (cases "resolve_init E s1")
    note fr2 = resolve_init_frame [OF ri]
    show ?thesis
    proof (cases r2)
      case (Inl e)
      with ri have "\<not> assertion_error e"
        using resolve_init_error by blast
      with pr Inr ri Inl Some show ?thesis
        by (simp add: generate_unfold build_and_dispatch_unfold reaches_mask_checks_def and_then_def)
    next
      case (Inr im)
      obtain i m where im: "im = (i, m)" by (cases im)
      from ri Inr im have res: "(m \<noteq> None) = alpha_mask (st_args s1)"
        using resolve_init_result by blast
      from pr obtain v1 where v1: "st_args s1 = (st_args s)\<lparr>strength := v1\<rparr>"
        using prepare_request_args by blast
      from ri obtain v2 where v2: "st_args s2 = (st_args s1)\<lparr>init_sample := v2\<rparr>"
        using resolve_init_args by blast
      from v1 have a1: "alpha_mask (st_args s1) = alpha_mask (st_args s)"
        by (simp add: alpha_mask_strength)
      from v1 v2 have um: "use_mask (st_args s2) = use_mask (st_args s)"
        "mask_file (st_args s2) = mask_file (st_args s)" "use_init (st_args s2) = use_init (st_args s)"
        by simp_all
      from fr1 fr2 have dw: "dispatched (st_world s2) = dispatched (st_world s)"
        by simp
      have reach: "reaches_mask_checks E frame s"
        using pr \<open>r1 = Inr u\<close> ri Inr by (simp add: reaches_mask_checks_def and_then_def)
      show ?thesis
      proof (cases "use_mask (st_args s)")
        case True
        with pr \<open>r1 = Inr u\<close> ri Inr im um res a1 reach Some dw show ?thesis
          by (auto simp add: generate_unfold build_and_dispatch_unfold resolve_mask_eval)
      next
        case False
        obtain r3 s3 where d: "dispatch E i None s2 = (r3, s3)"
          by (cases "dispatch E i None s2")
        have "\<not> is_assertion (fst (generate E frame rs s))"
        proof (cases r3)
          case (Inl e)
          with d have "\<not> assertion_error e" using dispatch_error by blast
          with pr \<open>r1 = Inr u\<close> ri Inr im um False d Inl show ?thesis
            by (simp add: generate_unfold build_and_dispatch_unfold)
        next
          case (Inr pr3)
          obtain r4 s4 where f: "and_then (record_first pr3) (\<lambda>_. results rs pr3) s3 = (r4, s4)"
            by (cases "and_then (record_first pr3) (\<lambda>_. results rs pr3) s3")
          have "\<not> is_assertion r4"
          proof (cases r4)
            case (Inl e)
            with f show ?thesis by (auto dest: finish_error)
          next
            case (Inr out)
            then show ?thesis by simp
          qed
          with pr \<open>r1 = Inr u\<close> ri \<open>r2 = Inr im\<close> im um False d Inr f show ?thesis
            by (simp add: generate_unfold build_and_dispatch_unfold)
        qed
        with False Some show ?thesis by simp
      qed
    qed
  qed
qed

section \<open>The prompt\<close>

text \<open>
  C4. Expression substitution replaces every backtick-delimited expression of the
  prompt by what the evaluator returns for it, each evaluated with the frame index of
  the call, from left to right over non-overlapping matches, and copies all other text:
  for a prompt made of plain text and \<open>N\<close> delimited expressions (followed by a rest
  with fewer than two backticks), the matches are exactly the \<open>N\<close> expressions in order
  and the result is the prompt with each of them replaced. With no expression at all the
  prompt comes back unchanged.
\<close>

theorem substitute_expressions_segments:
  assumes "\<forall>seg \<in> set segs. no_backtick seg"
    and "\<forall>m \<in> set (expressions segs). parse_weight E m frame = Inr (ev m)"
    and "count_list tail backtick < 2"
  shows "substitute_expressions E frame (raw segs @ tail) = Inr (substituted ev segs @ tail)
       \<and> re_matches (raw segs @ tail) = expressions segs
       \<and> substitute_expressions E frame tail = Inr tail"
proof -
  from assms(2) have ev: "\<forall>m \<in> set (expressions segs).
      external (parse_weight E m frame) = Inr (ev m)"
    by (simp add: external_def)
  have "substitute_expressions E frame (raw segs @ tail) =
      Inr (substituted ev segs @ tail)"
    unfolding substitute_expressions_def by (rule re_sub_segments [OF assms(1) ev assms(3)])
  moreover from assms(1,3) have "re_matches (raw segs @ tail) = expressions segs"
    by (rule re_matches_segments)
  moreover from assms(3) have "substitute_expressions E frame tail = Inr tail"
    unfolding substitute_expressions_def by (rule re_sub_few)
  ultimately show ?thesis by simp
qed

theorem substitute_expressions_segments_witness:
  "substitute_expressions example_env 3
     (raw [Plain ''a '', Expr ''1+2'', Plain '' b '', Expr ''t''] @ '' end'') =
     Inr ''a 3.0 b 3.0 end''
   \<and> re_matches (raw [Plain ''a '', Expr ''1+2'', Plain '' b '', Expr ''t''] @ '' end'') =
     [raw [Expr ''1+2''], raw [Expr ''t'']]
   \<and> substitute_expressions example_env 3 '' end'' = Inr '' end''"
  using substitute_expressions_segments
    [of "[Plain ''a '', Expr ''1+2'', Plain '' b '', Expr ''t'']" example_env 3
        "\<lambda>m. ''3.0''" "'' end''"]
  by (simp add: example_env_def substituted_def raw_def)

text \<open>
  C3, on a prompt with two markers. \<^verbatim>\<open>split\<close> returns three pieces, and the
  assignment to the two names \<^verbatim>\<open>p.prompt, p.negative_prompt\<close> raises ValueError: no
  positive and no negative prompt is set.
\<close>

theorem neg_split_two_markers:
  "neg_split ''A cat --neg dog --neg bird'' =
     Inl (ValueError ''too many values to unpack (expected 2)'')"
  by code_simp

section \<open>Loading images and masks\<close>

lemma codec_ok_example: "codec_ok example_env"
  by (auto simp add: codec_ok_def example_env_def example_convert_def example_resample_def fit_def
      list_all_iff Let_def split: mode.splits)

lemma convert_pixels_ok:
  "codec_ok E \<Longrightarrow> length (convert_pixels E src dst pxs) = length pxs
     \<and> list_all (\<lambda>px. length px = channels dst) (convert_pixels E src dst pxs)"
  by (simp add: codec_ok_def)

lemma resample_ok:
  "codec_ok E \<Longrightarrow> length (resample E im sz) = fst sz * snd sz
     \<and> list_all (\<lambda>px. length px = channels (im_mode im)) (resample E im sz)"
  by (cases sz) (simp add: codec_ok_def)

lemma image_update_all:
  "(src::image)\<lparr>im_mode := m, im_width := w, im_height := h, im_pixels := pxs\<rparr> =
     \<lparr>im_mode = m, im_width = w, im_height = h, im_pixels = pxs\<rparr>"
  by simp

lemma convert_as_update:
  "convert E m src =
     src\<lparr>im_mode := m,
         im_pixels := (if im_mode src = m then im_pixels src
                       else convert_pixels E (im_mode src) m (im_pixels src))\<rparr>"
  by (simp add: convert_def)

lemma example_open_alpha:
  "image_open example_env ''alpha.png'' empty_world =
     (Inr example_alpha_image, empty_world\<lparr>opened := [''alpha.png'']\<rparr>)"
  by (simp add: image_open_def example_env_def external_def empty_world_def)

text \<open>
  C9, amended. For a reference that opens and a target size with positive width and
  height, \<^verbatim>\<open>load_img\<close> with \<^verbatim>\<open>use_alpha_as_mask\<close> decodes the source to four
  channels, resizes that, and returns the resized pixels reduced to three channels as an
  image of the target size, together with a mask that is present, has the target size and
  one channel, and holds for every pixel the fourth (alpha) value of the resized
  four-channel pixel; without \<^verbatim>\<open>use_alpha_as_mask\<close> it returns the source decoded to
  three channels and resized, and no mask, whatever the mode of the source. With PIL's
  pixel arithmetic keeping its shapes, the images have one pixel per position and three
  values per pixel. For a target size with a zero width or height \<^verbatim>\<open>load_img\<close>
  raises ValueError.
\<close>

theorem load_img_channels:
  assumes "image_open E path w = (Inr src, w')" and "codec_ok E"
  shows "if 0 < fst shp \<and> 0 < snd shp
         then (let rgba = resample E
                      (src\<lparr>im_mode := RGBA,
                           im_pixels := (if im_mode src = RGBA then im_pixels src
                              else convert_pixels E (im_mode src) RGBA (im_pixels src))\<rparr>) shp;
                   rgb = resample E
                      (src\<lparr>im_mode := RGB,
                           im_pixels := (if im_mode src = RGB then im_pixels src
                              else convert_pixels E (im_mode src) RGB (im_pixels src))\<rparr>) shp
               in load_img E path shp True w =
                    (Inr (\<lparr>im_mode = RGB, im_width = fst shp, im_height = snd shp,
                           im_pixels = convert_pixels E RGBA RGB rgba\<rparr>,
                          Some \<lparr>im_mode = L, im_width = fst shp, im_height = snd shp,
                                im_pixels = map (\<lambda>px. [px ! 3]) rgba\<rparr>), w')
                  \<and> length rgba = fst shp * snd shp
                  \<and> list_all (\<lambda>px. length px = 4) rgba
                  \<and> length (convert_pixels E RGBA RGB rgba) = fst shp * snd shp
                  \<and> list_all (\<lambda>px. length px = 3) (convert_pixels E RGBA RGB rgba)
                  \<and> load_img E path shp False w =
                    (Inr (\<lparr>im_mode = RGB, im_width = fst shp, im_height = snd shp,
                           im_pixels = rgb\<rparr>, None), w')
                  \<and> length rgb = fst shp * snd shp
                  \<and> list_all (\<lambda>px. length px = 3) rgb)
         else fst (load_img E path shp True w) = Inl (ValueError ''height and width must be > 0'')
            \<and> fst (load_img E path shp False w) = Inl (ValueError ''height and width must be > 0'')"
proof (cases "0 < fst shp \<and> 0 < snd shp")
  case False
  with assms(1) show ?thesis
    by (auto simp add: load_img_eval resize_def)
next
  case True
  define p4 where "p4 = (if im_mode src = RGBA then im_pixels src
      else convert_pixels E (im_mode src) RGBA (im_pixels src))"
  define p3 where "p3 = (if im_mode src = RGB then im_pixels src
      else convert_pixels E (im_mode src) RGB (im_pixels src))"
  let ?src4 = "src\<lparr>im_mode := RGBA, im_pixels := p4\<rparr>"
  let ?src3 = "src\<lparr>im_mode := RGB, im_pixels := p3\<rparr>"
  define im4 where "im4 = \<lparr>im_mode = RGBA, im_width = fst shp, im_height = snd shp,
      im_pixels = resample E ?src4 shp\<rparr>"
  define im3 where "im3 = \<lparr>im_mode = RGB, im_width = fst shp, im_height = snd shp,
      im_pixels = resample E ?src3 shp\<rparr>"
  have c4: "convert E RGBA src = ?src4" and c3: "convert E RGB src = ?src3"
    by (simp_all add: convert_def p4_def p3_def)
  from True have r4: "resize E shp (convert E RGBA src) = Inr im4"
    and r3: "resize E shp (convert E RGB src) = Inr im3"
    unfolding c4 c3 by (simp_all add: resize_def im4_def im3_def)
  have "load_img E path shp True w = (Inr (convert E RGB im4, Some (band im4 3)), w')"
    using assms(1) r4 by (simp add: load_img_eval)
  moreover have "convert E RGB im4 = \<lparr>im_mode = RGB, im_width = fst shp, im_height = snd shp,
      im_pixels = convert_pixels E RGBA RGB (resample E ?src4 shp)\<rparr>"
    by (simp add: convert_def im4_def)
  moreover have "band im4 3 = \<lparr>im_mode = L, im_width = fst shp, im_height = snd shp,
      im_pixels = map (\<lambda>px. [px ! 3]) (resample E ?src4 shp)\<rparr>"
    by (simp add: band_def im4_def)
  ultimately have alpha: "load_img E path shp True w =
      (Inr (\<lparr>im_mode = RGB, im_width = fst shp, im_height = snd shp,
             im_pixels = convert_pixels E RGBA RGB (resample E ?src4 shp)\<rparr>,
            Some \<lparr>im_mode = L, im_width = fst shp, im_height = snd shp,
                  im_pixels = map (\<lambda>px. [px ! 3]) (resample E ?src4 shp)\<rparr>), w')"
    by simp
  have plain: "load_img E path shp False w =
      (Inr (\<lparr>im_mode = RGB, im_width = fst shp, im_height = snd shp,
             im_pixels = resample E ?src3 shp\<rparr>, None), w')"
    using assms(1) r3 by (simp add: load_img_eval im3_def)
  from resample_ok [OF assms(2), of ?src4 shp]
  have ok4: "length (resample E ?src4 shp) = fst shp * snd shp"
    "list_all (\<lambda>px. length px = 4) (resample E ?src4 shp)"
    by simp_all
  from resample_ok [OF assms(2), of ?src3 shp]
  have ok3: "length (resample E ?src3 shp) = fst shp * snd shp"
    "list_all (\<lambda>px. length px = 3) (resample E ?src3 shp)"
    by simp_all
  from convert_pixels_ok [OF assms(2), of RGBA RGB "resample E ?src4 shp"] ok4
  have okc: "length (convert_pixels E RGBA RGB (resample E ?src4 shp)) = fst shp * snd shp"
    "list_all (\<lambda>px. length px = 3) (convert_pixels E RGBA RGB (resample E ?src4 shp))"
    by simp_all
  from True alpha plain ok4 ok3 okc show ?thesis
    unfolding p4_def p3_def by (simp add: Let_def)
qed

theorem load_img_channels_witness:
  "load_img example_env ''alpha.png'' (2, 1) True empty_world =
     (Inr (\<lparr>im_mode = RGB, im_width = 2, im_height = 1, im_pixels = [[10, 20, 30], [10, 20, 30]]\<rparr>,
           Some \<lparr>im_mode = L, im_width = 2, im_height = 1, im_pixels = [[77], [77]]\<rparr>),
      empty_world\<lparr>opened := [''alpha.png'']\<rparr>)
   \<and> load_img example_env ''alpha.png'' (2, 1) False empty_world =
     (Inr (\<lparr>im_mode = RGB, im_width = 2, im_height = 1, im_pixels = [[10, 20, 30], [10, 20, 30]]\<rparr>,
           None),
      empty_world\<lparr>opened := [''alpha.png'']\<rparr>)"
  using load_img_channels [OF example_open_alpha codec_ok_example, of "(2, 1)"]
  by (simp add: Let_def example_env_def example_alpha_image_def example_convert_def
      example_resample_def fit_def numeral_2_eq_2)

text \<open>
  C9 as stated fails for a target size with a zero width: \<^verbatim>\<open>Image.resize\<close> refuses
  it, and \<^verbatim>\<open>load_img\<close> returns neither image nor mask.
\<close>

theorem load_img_zero_size:
  "fst (load_img example_env ''init.png'' (0, 1) True empty_world) =
     Inl (ValueError ''height and width must be > 0'')"
  by (simp add: load_img_eval image_open_def example_env_def external_def resize_def)

text \<open>
  C5, with the invert flag set. Line 87 calls \<^verbatim>\<open>PIL.ImageOps.invert\<close>, and the
  module binds no name \<^verbatim>\<open>PIL\<close>: on a mask that loads, with both factors 1 and
  \<^verbatim>\<open>invert_mask=True\<close>, \<^verbatim>\<open>prepare_mask\<close> raises NameError and returns no mask.
\<close>

theorem prepare_mask_invert_raises:
  "fst (prepare_mask example_env (Img example_image) [1, 3, 1, 2] 1 1 True empty_world) =
     Inl (NameError ''PIL'')"
  by (simp add: prepare_mask_def load_mask_latent_def from_end_def resize_def prog_defs Let_def
      global_name_def module_globals_def)

section \<open>The init image\<close>












text \<open>
  C2, for \<open>W = 2\<close> and \<open>H = 1\<close> with no sample and no init image. The array of shape
  \<open>(W, H, 3)\<close> has \<open>W\<close> rows and \<open>H\<close> columns, so the noise image is \<open>H\<close> wide and \<open>W\<close>
  high: the request asks for width 2 and height 1 and carries an init image of width 1
  and height 2.
\<close>

theorem generate_noise_transposed:
  "map (\<lambda>req. (p_width req, p_height req,
          map (map_option (\<lambda>im. (im_width im, im_height im))) (p_init_images req)))
     (dispatched (st_world (snd (generate example_env 0 False example_state))))
   = [(2, 1, [Some (1, 2)])]"
  by (simp add: stage_defs prog_defs example_defs neg_split_one_marker Let_def)

section \<open>The request\<close>

lemma prepare_request_preempted:
  "prepare_request E frame s = (Inl e, s1) \<Longrightarrow>
     strength (st_args s1) = strength (st_args s)
     \<and> stdout (st_world s1) = stdout (st_world s)
     \<and> p_denoising_strength (p (st_root s1)) = p_denoising_strength (p (st_root s))
     \<and> dispatched (st_world s1) = dispatched (st_world s)"
  by (auto simp add: prepare_request_def prog_defs set_prompts_def setup_pipeline_def os_makedirs_def
      strength_policy_def Let_def
      split: sum.splits prod.splits if_splits option.splits)

text \<open>
  C8, amended. For every call that reaches line 131 (the prompt is present, and
  expression substitution, the creation of the output directory and the split of the
  prompt raise nothing): the strength the rest of the call works with is 0 if
  \<^verbatim>\<open>use_init\<close> is false, the supplied strength is positive and
  \<^verbatim>\<open>strength_0_no_init\<close> is set, and the supplied strength otherwise; it is fixed before
  the init image and the mask are resolved, it is the denoising strength of the request
  object after the call and of the request handed to the engine when the call returns,
  and the two lines of the notice are printed exactly in the first case. A call that
  fails before line 131 resets nothing, prints nothing, and leaves the request's
  denoising strength as it was.
\<close>

theorem strength_policy_in_request:
  "(\<forall>u s1. prepare_request E frame s = (Inr u, s1) \<longrightarrow>
      strength (st_args s1) =
        (if \<not> use_init (st_args s) \<and> strength (st_args s) > 0 \<and> strength_0_no_init (st_args s)
         then 0 else strength (st_args s))
      \<and> generate E frame rs s =
          and_then (build_and_dispatch E) (\<lambda>processed.
            and_then (record_first processed) (\<lambda>_. results rs processed)) s1
      \<and> p_denoising_strength (p (st_root (snd (generate E frame rs s)))) = strength (st_args s1)
      \<and> stdout (st_world (snd (generate E frame rs s))) = stdout (st_world s) @
          (if \<not> use_init (st_args s) \<and> strength (st_args s) > 0 \<and> strength_0_no_init (st_args s)
           then [CHR 0x0A # ''No init image, but strength > 0. Strength has been auto set to 0, since use_init is False.'',
                 ''If you want to force strength > 0 with no init, please set strength_0_no_init to False.'' @ [CHR 0x0A]]
           else [])
      \<and> (\<forall>out. fst (generate E frame rs s) = Inr out \<longrightarrow>
           (\<exists>req. dispatched (st_world (snd (generate E frame rs s))) =
                    dispatched (st_world s) @ [req]
                 \<and> p_denoising_strength req = strength (st_args s1))))
   \<and> (\<forall>e s1. prepare_request E frame s = (Inl e, s1) \<longrightarrow>
      generate E frame rs s = (Inl e, s1)
      \<and> strength (st_args s1) = strength (st_args s)
      \<and> stdout (st_world s1) = stdout (st_world s)
      \<and> p_denoising_strength (p (st_root s1)) = p_denoising_strength (p (st_root s))
      \<and> dispatched (st_world s1) = dispatched (st_world s))"
proof (intro conjI allI impI)
  fix e s1 assume pre: "prepare_request E frame s = (Inl e, s1)"
  then show "generate E frame rs s = (Inl e, s1)"
    by (simp add: generate_unfold)
  from prepare_request_preempted [OF pre]
  show "strength (st_args s1) = strength (st_args s)"
    "stdout (st_world s1) = stdout (st_world s)"
    "p_denoising_strength (p (st_root s1)) = p_denoising_strength (p (st_root s))"
    "dispatched (st_world s1) = dispatched (st_world s)"
    by simp_all
next
  fix u s1 assume ok: "prepare_request E frame s = (Inr u, s1)"
  note f1 = prepare_request_strength [OF ok] prepare_request_frame [OF ok]
  from f1 show "strength (st_args s1) =
      (if \<not> use_init (st_args s) \<and> strength (st_args s) > 0 \<and> strength_0_no_init (st_args s)
       then 0 else strength (st_args s))"
    by simp
  show run: "generate E frame rs s =
      and_then (build_and_dispatch E) (\<lambda>processed.
        and_then (record_first processed) (\<lambda>_. results rs processed)) s1"
    using ok by (simp add: generate_def and_then_def)
  obtain r2 s2 where bd: "build_and_dispatch E s1 = (r2, s2)"
    by (cases "build_and_dispatch E s1")
  note f2 = build_and_dispatch_frame [OF bd]
  have rest: "p_denoising_strength (p (st_root (snd (generate E frame rs s)))) = strength (st_args s1)
     \<and> stdout (st_world (snd (generate E frame rs s))) = stdout (st_world s1)
     \<and> (\<forall>out. fst (generate E frame rs s) = Inr out \<longrightarrow>
            (\<exists>req. dispatched (st_world (snd (generate E frame rs s))) =
                     dispatched (st_world s) @ [req]
                  \<and> p_denoising_strength req = strength (st_args s1)))"
  proof (cases r2)
    case (Inl e)
    with ok bd f1 f2 show ?thesis by (simp add: generate_unfold)
  next
    case (Inr res)
    obtain r3 s3 where fin: "and_then (record_first res) (\<lambda>_. results rs res) s2 = (r3, s3)"
      by (cases "and_then (record_first res) (\<lambda>_. results rs res) s2")
    note f3 = finish_frame [OF fin]
    from ok bd Inr fin have g: "generate E frame rs s = (r3, s3)"
      by (simp add: generate_unfold)
    from f2 Inr obtain req where req: "dispatched (st_world s2) = dispatched (st_world s1) @ [req]"
      "p_denoising_strength req = p_denoising_strength (p (st_root s1))"
      by auto
    with g f1 f2 f3 show ?thesis by simp
  qed
  from rest show "p_denoising_strength (p (st_root (snd (generate E frame rs s)))) =
      strength (st_args s1)"
    by simp
  from rest f1 show "stdout (st_world (snd (generate E frame rs s))) = stdout (st_world s) @
      (if \<not> use_init (st_args s) \<and> strength (st_args s) > 0 \<and> strength_0_no_init (st_args s)
       then [CHR 0x0A # ''No init image, but strength > 0. Strength has been auto set to 0, since use_init is False.'',
             ''If you want to force strength > 0 with no init, please set strength_0_no_init to False.'' @ [CHR 0x0A]]
       else [])"
    by (simp add: strength_notice_def)
  fix out assume "fst (generate E frame rs s) = Inr out"
  with rest show "\<exists>req. dispatched (st_world (snd (generate E frame rs s))) =
        dispatched (st_world s) @ [req]
      \<and> p_denoising_strength req = strength (st_args s1)"
    by simp
qed

theorem strength_policy_in_request_witness:
  "p_denoising_strength (p (st_root example_state)) = 1
   \<and> p_denoising_strength (p (st_root (snd (generate example_env 0 False example_state)))) = 0
   \<and> stdout (st_world (snd (generate example_env 0 False example_state))) =
       [CHR 0x0A # ''No init image, but strength > 0. Strength has been auto set to 0, since use_init is False.'',
        ''If you want to force strength > 0 with no init, please set strength_0_no_init to False.'' @ [CHR 0x0A]]
   \<and> map p_denoising_strength
        (dispatched (st_world (snd (generate example_env 0 False example_state)))) = [0]"
proof -
  have ok: "fst (generate example_env 0 False example_state) = Inr [example_image]"
    by (simp add: stage_defs prog_defs example_defs neg_split_one_marker Let_def)
  have args: "\<not> use_init (st_args example_state)" "strength (st_args example_state) > 0"
    "strength_0_no_init (st_args example_state)" "stdout (st_world example_state) = []"
    "dispatched (st_world example_state) = []"
    "p_denoising_strength (p (st_root example_state)) = 1"
    by (simp_all add: example_defs)
  from strength_policy_in_request [of example_env 0 example_state False] example_prepare ok args
  show ?thesis by auto
qed

text \<open>
  C8 as stated fails for a call without a prompt: \<^verbatim>\<open>use_init\<close> is false, the strength
  is positive and \<^verbatim>\<open>strength_0_no_init\<close> is set, but the assertion of line 93 stops the
  call, the strength stays as supplied, the request keeps its old denoising strength and
  no notice is printed.
\<close>

theorem strength_policy_preempted:
  "\<not> use_init (example_args\<lparr>prompt := None\<rparr>)
   \<and> strength (example_args\<lparr>prompt := None\<rparr>) > 0
   \<and> strength_0_no_init (example_args\<lparr>prompt := None\<rparr>)
   \<and> fst (generate example_env 0 False (example_state\<lparr>st_args := example_args\<lparr>prompt := None\<rparr>\<rparr>))
       = Inl (AssertionError [])
   \<and> strength (st_args (snd (generate example_env 0 False
        (example_state\<lparr>st_args := example_args\<lparr>prompt := None\<rparr>\<rparr>)))) = 1 / 2
   \<and> p_denoising_strength (p (st_root (snd (generate example_env 0 False
        (example_state\<lparr>st_args := example_args\<lparr>prompt := None\<rparr>\<rparr>))))) = 1
   \<and> stdout (st_world (snd (generate example_env 0 False
        (example_state\<lparr>st_args := example_args\<lparr>prompt := None\<rparr>\<rparr>)))) = []
   \<and> dispatched (st_world (snd (generate example_env 0 False
        (example_state\<lparr>st_args := example_args\<lparr>prompt := None\<rparr>\<rparr>)))) = []"
  by (simp add: stage_defs prog_defs example_defs Let_def)

text \<open>
  C6, for a call with \<^verbatim>\<open>use_mask\<close>, \<^verbatim>\<open>use_init\<close>, an init image and a mask file.
  Both mask preconditions hold, the init image is opened, and line 160 reads
  \<^verbatim>\<open>init_image.shape\<close> on a PIL image: the call raises AttributeError, the mask file is
  never opened, \<^verbatim>\<open>prepare_mask\<close> is not called and no request is dispatched.
\<close>

theorem generate_mask_shape_raises:
  "fst (generate example_env 0 False
      (example_state\<lparr>st_args := example_args\<lparr>use_init := True, init_image := Some ''init.png'',
         use_mask := True, mask_file := Some ''mask.png'', mask_brightness_adjust := 2\<rparr>\<rparr>))
     = Inl (AttributeError ''shape'')
   \<and> opened (st_world (snd (generate example_env 0 False
      (example_state\<lparr>st_args := example_args\<lparr>use_init := True, init_image := Some ''init.png'',
         use_mask := True, mask_file := Some ''mask.png'', mask_brightness_adjust := 2\<rparr>\<rparr>))))
     = [''init.png'']
   \<and> dispatched (st_world (snd (generate example_env 0 False
      (example_state\<lparr>st_args := example_args\<lparr>use_init := True, init_image := Some ''init.png'',
         use_mask := True, mask_file := Some ''mask.png'', mask_brightness_adjust := 2\<rparr>\<rparr>))))
     = []"
  by (simp add: stage_defs prog_defs example_defs neg_split_one_marker Let_def)


text \<open>
  C7, amended. \<^verbatim>\<open>generate\<close> fails with a precondition error exactly when the prompt
  is absent, or when the call reaches the mask checks (expression substitution, the
  creation of the output directory, the split of the prompt, and the resolution of the
  init image with its fetch and resize raise nothing) with \<^verbatim>\<open>use_mask\<close> set and
  either no mask file and no alpha-derived mask, or \<^verbatim>\<open>use_init\<close> unset. Then no request
  is dispatched. The overlay-mask check of line 172 never fails: whenever the init image
  is resolved, an image is there.
\<close>

theorem generate_precondition_errors:
  "is_assertion (fst (generate E frame rs s)) =
     (prompt (st_args s) = None \<or>
      (reaches_mask_checks E frame s \<and> use_mask (st_args s) \<and>
         ((mask_file (st_args s) = None \<and> \<not> alpha_mask (st_args s)) \<or> \<not> use_init (st_args s))))
   \<and> (is_assertion (fst (generate E frame rs s)) \<longrightarrow>
        dispatched (st_world (snd (generate E frame rs s))) = dispatched (st_world s))
   \<and> (\<forall>s1 i m s2. resolve_init E s1 = (Inr (i, m), s2) \<longrightarrow>
        i \<noteq> None \<and> overlay_check i s2 = (Inr (), s2))"
proof -
  have "\<forall>s1 i m s2. resolve_init E s1 = (Inr (i, m), s2) \<longrightarrow>
      i \<noteq> None \<and> overlay_check i s2 = (Inr (), s2)"
    using resolve_init_result overlay_check_passes by blast
  with precondition_error_iff [of E frame rs s] show ?thesis
    by blast
qed

theorem generate_precondition_errors_witness:
  "is_assertion (fst (generate example_env 0 False
      (example_state\<lparr>st_args := example_args\<lparr>use_mask := True\<rparr>\<rparr>)))
   \<and> dispatched (st_world (snd (generate example_env 0 False
      (example_state\<lparr>st_args := example_args\<lparr>use_mask := True\<rparr>\<rparr>)))) = []"
  using generate_precondition_errors
    [of example_env 0 False "example_state\<lparr>st_args := example_args\<lparr>use_mask := True\<rparr>\<rparr>"]
    reaches_example
  by (simp add: example_state_def example_args_def empty_world_def alpha_mask_def)


text \<open>
  C7 as stated fails: with \<^verbatim>\<open>use_mask\<close> set, no mask file and no alpha-derived mask,
  a prompt whose expression the evaluator rejects makes \<^verbatim>\<open>generate\<close> fail with the
  evaluator's error on line 103, not with a precondition error.
\<close>

theorem generate_precondition_preempted:
  "use_mask (example_args\<lparr>prompt := Some (raw [Expr ''1/'']), use_mask := True\<rparr>)
   \<and> mask_file (example_args\<lparr>prompt := Some (raw [Expr ''1/'']), use_mask := True\<rparr>) = None
   \<and> \<not> alpha_mask (example_args\<lparr>prompt := Some (raw [Expr ''1/'']), use_mask := True\<rparr>)
   \<and> fst (generate (example_env\<lparr>parse_weight := (\<lambda>m frame. Inl ''malformed expression'')\<rparr>) 0 False
        (example_state\<lparr>st_args := example_args\<lparr>prompt := Some (raw [Expr ''1/'']), use_mask := True\<rparr>\<rparr>))
       = Inl (External ''malformed expression'')
   \<and> \<not> is_assertion (fst (generate (example_env\<lparr>parse_weight := (\<lambda>m frame. Inl ''malformed expression'')\<rparr>) 0 False
        (example_state\<lparr>st_args := example_args\<lparr>prompt := Some (raw [Expr ''1/'']), use_mask := True\<rparr>\<rparr>)))"
  by (simp add: stage_defs prog_defs example_defs alpha_mask_def raw_def Let_def)

section \<open>The first result\<close>

lemma finish_pairing:
  "and_then (record_first pr) (\<lambda>_. results rs pr) s = (r, s') \<Longrightarrow>
     (initial_seed (st_root s) = None) = (initial_info (st_root s) = None) \<Longrightarrow>
     (initial_seed (st_root s') = None) = (initial_info (st_root s') = None)"
  by (auto simp add: record_first_def results_def first_image_def prog_defs Let_def
      split: if_splits sum.splits prod.splits list.splits)

text \<open>Every call, whether it returns or raises, keeps seed and info empty together.\<close>

lemma generate_keeps_pairing:
  assumes "generate E frame rs s = (r, s')"
    and "(initial_seed (st_root s) = None) = (initial_info (st_root s) = None)"
  shows "(initial_seed (st_root s') = None) = (initial_info (st_root s') = None)"
proof -
  obtain r1 s1 where pr: "prepare_request E frame s = (r1, s1)"
    by (cases "prepare_request E frame s")
  note f1 = prepare_request_frame [OF pr]
  show ?thesis
  proof (cases r1)
    case (Inl e)
    with assms pr f1 show ?thesis by (simp add: generate_unfold)
  next
    case (Inr u)
    obtain r2 s2 where bd: "build_and_dispatch E s1 = (r2, s2)"
      by (cases "build_and_dispatch E s1")
    note f2 = build_and_dispatch_frame [OF bd]
    show ?thesis
    proof (cases r2)
      case (Inl e)
      with assms pr \<open>r1 = Inr u\<close> bd f1 f2 show ?thesis by (simp add: generate_unfold)
    next
      case (Inr res)
      with assms pr \<open>r1 = Inr u\<close> bd
      have fin: "and_then (record_first res) (\<lambda>_. results rs res) s2 = (r, s')"
        by (simp add: generate_unfold)
      from assms(2) f1 f2 have "(initial_seed (st_root s2) = None) = (initial_info (st_root s2) = None)"
        by simp
      with fin show ?thesis by (rule finish_pairing)
    qed
  qed
qed

text \<open>
  C10, amended. In a run of successful calls that share one root, the first call writes
  the initial info and the first frame only when each is empty, and writes the initial
  seed together with the initial info, that is when the info is empty; every later call
  leaves all three as the first call left them. For a root whose seed and info are empty
  together, as in a root that starts empty, the seed too is written only when it is empty.
\<close>

theorem first_result_written_once:
  assumes "generate E frame rs \<lparr>st_args = a, st_root = r, st_world = w\<rparr> = (Inr out, s1)"
    and "generate_calls E calls (st_root s1, st_world s1) = Some (r', w')"
  shows "\<exists>req res im. dispatched (st_world s1) = dispatched w @ [req]
           \<and> process_images E req = Inr res \<and> first_image res = Inr im
           \<and> initial_info (st_root s1) =
                (if initial_info r = None then Some (pr_info res) else initial_info r)
           \<and> initial_seed (st_root s1) =
                (if initial_info r = None then Some (pr_seed res) else initial_seed r)
           \<and> first_frame (st_root s1) =
                (if first_frame r = None then Some im else first_frame r)
           \<and> ((initial_seed r = None) = (initial_info r = None) \<longrightarrow>
                initial_seed (st_root s1) =
                  (if initial_seed r = None then Some (pr_seed res) else initial_seed r))
           \<and> initial_info r' = initial_info (st_root s1)
           \<and> initial_seed r' = initial_seed (st_root s1)
           \<and> first_frame r' = first_frame (st_root s1)"
proof -
  from generate_success [OF assms(1)]
  obtain req res im where first: "dispatched (st_world s1) = dispatched w @ [req]"
    "process_images E req = Inr res" "first_image res = Inr im"
    "initial_info r = None \<longrightarrow> initial_info (st_root s1) = Some (pr_info res) \<and>
       initial_seed (st_root s1) = Some (pr_seed res)"
    "first_frame r = None \<longrightarrow> first_frame (st_root s1) = Some im"
    by auto
  from generate_first_result_kept [OF assms(1)]
  have kept: "initial_info r \<noteq> None \<longrightarrow> initial_info (st_root s1) = initial_info r \<and>
      initial_seed (st_root s1) = initial_seed r"
    "first_frame r \<noteq> None \<longrightarrow> first_frame (st_root s1) = first_frame r"
    by simp_all
  from first(4,5) kept
  have now: "initial_info (st_root s1) =
      (if initial_info r = None then Some (pr_info res) else initial_info r)"
    "initial_seed (st_root s1) =
      (if initial_info r = None then Some (pr_seed res) else initial_seed r)"
    "first_frame (st_root s1) = (if first_frame r = None then Some im else first_frame r)"
    by simp_all
  then have full: "initial_info (st_root s1) \<noteq> None" "first_frame (st_root s1) \<noteq> None"
    by (simp_all split: if_splits)
  from generate_calls_kept [OF assms(2)] full
  have "initial_info r' = initial_info (st_root s1)" "initial_seed r' = initial_seed (st_root s1)"
    "first_frame r' = first_frame (st_root s1)"
    by simp_all
  moreover from now(1,2) have "(initial_seed r = None) = (initial_info r = None) \<longrightarrow>
      initial_seed (st_root s1) =
        (if initial_seed r = None then Some (pr_seed res) else initial_seed r)"
    by simp
  ultimately show ?thesis using first(1-3) now by blast
qed

theorem first_result_written_once_witness:
  "map_option (\<lambda>rw. (initial_seed (fst rw), initial_info (fst rw), first_frame (fst rw)))
     (generate_calls example_env
        [(example_args, 0, False), (example_args\<lparr>prompt := Some ''A dog'', seed := 7\<rparr>, 1, False)]
        (example_root, empty_world))
   = Some (Some 42, Some ''A cat '', Some example_image)"
proof -
  let ?s0 = "\<lparr>st_args = example_args, st_root = example_root, st_world = empty_world\<rparr>"
  let ?later = "[(example_args\<lparr>prompt := Some ''A dog'', seed := 7\<rparr>, 1, False)]"
  have split2: "neg_split ''A dog'' = Inr (''A dog'', [])" by code_simp
  define s1 where "s1 = snd (generate example_env 0 False ?s0)"
  have "fst (generate example_env 0 False ?s0) = Inr [example_image]"
    by (simp add: stage_defs prog_defs example_defs neg_split_one_marker Let_def)
  then have g1: "generate example_env 0 False ?s0 = (Inr [example_image], s1)"
    by (simp add: s1_def prod_eq_iff)
  have s1: "initial_seed (st_root s1) = Some 42" "initial_info (st_root s1) = Some ''A cat ''"
    "first_frame (st_root s1) = Some example_image"
    unfolding s1_def
    by (simp_all add: stage_defs prog_defs example_defs neg_split_one_marker Let_def)
  let ?g2 = "generate example_env 1 False
      \<lparr>st_args = example_args\<lparr>prompt := Some ''A dog'', seed := 7\<rparr>,
        st_root = st_root s1, st_world = st_world s1\<rparr>"
  have "fst ?g2 = Inr [example_image]"
    unfolding s1_def
    by (simp add: stage_defs prog_defs example_defs neg_split_one_marker split2 Let_def)
  then obtain s2 where g2: "?g2 = (Inr [example_image], s2)"
    by (cases ?g2) auto
  then have later: "generate_calls example_env ?later (st_root s1, st_world s1) =
      Some (st_root s2, st_world s2)"
    by simp
  from first_result_written_once [OF g1 later] s1
  have "initial_seed (st_root s2) = Some 42"
    "initial_info (st_root s2) = Some ''A cat ''"
    "first_frame (st_root s2) = Some example_image"
    by auto
  moreover have "generate_calls example_env ((example_args, 0, False) # ?later)
      (example_root, empty_world) = Some (st_root s2, st_world s2)"
    using g1 later by simp
  ultimately show ?thesis by simp
qed

text \<open>
  C10 as stated fails for a root that holds a seed and no info: the seed is not empty,
  and a successful call overwrites it.
\<close>

theorem first_result_seed_overwritten:
  "initial_seed (st_root (example_state\<lparr>st_root := example_root\<lparr>initial_seed := Some 5\<rparr>\<rparr>)) = Some 5
   \<and> fst (generate example_env 0 False
        (example_state\<lparr>st_root := example_root\<lparr>initial_seed := Some 5\<rparr>\<rparr>)) = Inr [example_image]
   \<and> initial_seed (st_root (snd (generate example_env 0 False
        (example_state\<lparr>st_root := example_root\<lparr>initial_seed := Some 5\<rparr>\<rparr>)))) = Some 42"
  by (simp add: stage_defs prog_defs example_defs neg_split_one_marker Let_def)

end
